theory Spec2Isabelle
  imports Complex_Main "HOL-Library.Word" "HOL-Library.Sublist"
begin

section \<open>The Oxygen data-stream receiver (pyOxygenStream/oxygendst.py)\<close>

text \<open>
  The receiver of \<^verbatim>\<open>oxygendst.py\<close> is embedded function by function. A packet is a
  list of bytes; the receiver object is a record that every method takes and returns; an
  exception is an outcome that carries the receiver as the exception left it, since the
  Python object keeps every mutation made before the \<^verbatim>\<open>raise\<close>.

  The code calls into Python's and NumPy's libraries. What they compute on float64 values,
  on text and on XML is not code of this repository, so it is a parameter of the model (a
  record \<open>pylib\<close>): the theorems that quantify over the library hold for every float64
  arithmetic, rounding included. The scenarios with concrete numbers are evaluated on
  \<open>exact_lib\<close>, where a float64 is the real number it denotes; the operations of these
  scenarios are exact in float64 (small integers and their sums and products).
\<close>

subsection \<open>Constants\<close>

type_synonym byte = "8 word"

definition DT_SUBPACKET_HEADER_SIZE :: nat where "DT_SUBPACKET_HEADER_SIZE = 8"
definition DT_PACKET_INFO_SIZE :: nat where "DT_PACKET_INFO_SIZE = 24"
definition DT_SYNC_FIXED_SIZE :: nat where "DT_SYNC_FIXED_SIZE = 28"
definition DT_ASYNC_FIXED_SIZE :: nat where "DT_ASYNC_FIXED_SIZE = 20"

definition SBT_PACKET_INFO :: nat where "SBT_PACKET_INFO = 1"
definition SBT_XML_CONFIG :: nat where "SBT_XML_CONFIG = 2"
definition SBT_SYNC_FIXED :: nat where "SBT_SYNC_FIXED = 3"
definition SBT_SYNC_VARIABLE :: nat where "SBT_SYNC_VARIABLE = 4"
definition SBT_ASYNC_FIXED :: nat where "SBT_ASYNC_FIXED = 5"
definition SBT_ASYNC_VARIABLE :: nat where "SBT_ASYNC_VARIABLE = 6"
definition SBT_PACKET_FOOTER :: nat where "SBT_PACKET_FOOTER = 7"

text \<open>
  \<^verbatim>\<open>DT_DATA_TYPE\<close>: a dictionary from the wire code to a dtype name or to
  \<^verbatim>\<open>False\<close>. A missing key is \<open>None\<close> (\<^verbatim>\<open>KeyError\<close>), the entry
  \<^verbatim>\<open>False\<close> is \<open>Some None\<close>.
\<close>

definition DT_DATA_TYPE :: "nat \<Rightarrow> string option option" where
  "DT_DATA_TYPE c =
    (if c = 0 then Some (Some ''int8'')
     else if c = 1 then Some (Some ''uint8'')
     else if c = 2 then Some (Some ''int16'')
     else if c = 3 then Some (Some ''uint16'')
     else if c = 4 then Some (Some ''int24'')
     else if c = 5 then Some (Some ''uint24'')
     else if c = 6 then Some (Some ''int32'')
     else if c = 7 then Some (Some ''uint32'')
     else if c = 8 then Some (Some ''int64'')
     else if c = 9 then Some (Some ''uint64'')
     else if c = 10 then Some (Some ''float32'')
     else if c = 11 then Some (Some ''float64'')
     else if c = 12 then Some (Some ''complex64'')
     else if c = 13 then Some (Some ''complex128'')
     else if c = 14 then Some None
     else if c = 15 then Some None
     else None)"

subsection \<open>Exceptions, values and the library\<close>

datatype error =
    StructError | ValueError | TypeError | KeyError | IndexError | AttributeError
  | ParseError | UnicodeDecodeError | SocketTimeout

text \<open>
  A component of a scaling entry is what \<^verbatim>\<open>parseScalingXML\<close> stores: the
  attribute's text, or the integer default.
\<close>

datatype pyval = PStr string | PInt int

text \<open>An element of \<^verbatim>\<open>xml.etree.ElementTree\<close>: tag, attributes, sub-elements.\<close>

datatype element = Element (tag: string) (attrib: "(string \<times> string) list") (children: "element list")

text \<open>
  A number held in a NumPy array: an integer of one of the integer dtypes, a float (a
  float32 is held as the float64 of the same value), or a complex number.
\<close>

datatype 'f num = I int | F 'f | C 'f 'f

record 'f pylib =
  f_of_int :: "int \<Rightarrow> 'f"
  f_of_f32 :: "nat \<Rightarrow> 'f"
  f_of_f64 :: "nat \<Rightarrow> 'f"
  f_mul :: "'f \<Rightarrow> 'f \<Rightarrow> 'f"
  f_add :: "'f \<Rightarrow> 'f \<Rightarrow> 'f"
  f_div :: "'f \<Rightarrow> 'f \<Rightarrow> 'f"
  float_of_str :: "string \<Rightarrow> error + 'f"
  bytes_decode :: "byte list \<Rightarrow> error + string"
  et_fromstring :: "string \<Rightarrow> error + element"
  arange_wide :: "int \<Rightarrow> nat \<Rightarrow> 'f \<Rightarrow> error + 'f list"

text \<open>
  The fields: \<open>f_of_int\<close> converts an integer to float64, \<open>f_of_f32\<close> and
  \<open>f_of_f64\<close> read an IEEE bit pattern (as a number) as a float64, \<open>f_mul\<close>,
  \<open>f_add\<close>, \<open>f_div\<close> are the float64 operations, \<open>float_of_str\<close> is
  \<^verbatim>\<open>float(s)\<close> on a string, \<open>bytes_decode\<close> is \<^verbatim>\<open>bytes.decode()\<close>,
  \<open>et_fromstring\<close> is \<^verbatim>\<open>ET.fromstring\<close>, and \<open>arange_wide T N F\<close> is
  \<^verbatim>\<open>np.arange(T, T+N)/F\<close> when \<open>T + N\<close> leaves the int64 range, where NumPy no
  longer builds an int64 array.
\<close>

subsection \<open>Bytes, struct and NumPy buffers\<close>

fun le_nat :: "byte list \<Rightarrow> nat" where
  "le_nat [] = 0"
| "le_nat (b # bs) = unat b + 256 * le_nat bs"

definition le_sint :: "byte list \<Rightarrow> int" where
  "le_sint bs =
    (let v = int (le_nat bs); w = 8 * length bs
     in if w \<noteq> 0 \<and> 2 ^ (w - 1) \<le> v then v - 2 ^ w else v)"

text \<open>
  \<^verbatim>\<open>Struct.unpack_from(packet, pos)\<close> for a format of \<open>n\<close> bytes raises
  \<^verbatim>\<open>struct.error\<close> when fewer than \<open>n\<close> bytes are left at \<open>pos\<close>. The formats
  start with \<^verbatim>\<open>=\<close> (native order, no padding); the protocol and the hosts are
  little-endian.
\<close>

definition unpack_from :: "nat \<Rightarrow> byte list \<Rightarrow> nat \<Rightarrow> error + byte list" where
  "unpack_from n packet pos =
    (if length packet < pos + n then Inl StructError
     else Inr (take n (drop pos packet)))"

definition field :: "byte list \<Rightarrow> nat \<Rightarrow> nat \<Rightarrow> nat" where
  "field bs off n = le_nat (take n (drop off bs))"

datatype kind = SInt | UInt | Float | Complex

definition np_dtype :: "string \<Rightarrow> (kind \<times> nat) option" where
  "np_dtype s =
    (if s = ''int8'' then Some (SInt, 1)
     else if s = ''uint8'' then Some (UInt, 1)
     else if s = ''int16'' then Some (SInt, 2)
     else if s = ''uint16'' then Some (UInt, 2)
     else if s = ''int32'' then Some (SInt, 4)
     else if s = ''uint32'' then Some (UInt, 4)
     else if s = ''int64'' then Some (SInt, 8)
     else if s = ''uint64'' then Some (UInt, 8)
     else if s = ''float32'' then Some (Float, 4)
     else if s = ''float64'' then Some (Float, 8)
     else if s = ''complex64'' then Some (Complex, 8)
     else if s = ''complex128'' then Some (Complex, 16)
     else None)"

definition np_elem :: "'f pylib \<Rightarrow> kind \<Rightarrow> nat \<Rightarrow> byte list \<Rightarrow> 'f num" where
  "np_elem L k sz bs =
    (case k of
       SInt \<Rightarrow> I (le_sint bs)
     | UInt \<Rightarrow> I (int (le_nat bs))
     | Float \<Rightarrow> F (if sz = 4 then f_of_f32 L (le_nat bs) else f_of_f64 L (le_nat bs))
     | Complex \<Rightarrow>
         (if sz = 8
          then C (f_of_f32 L (le_nat (take 4 bs))) (f_of_f32 L (le_nat (drop 4 bs)))
          else C (f_of_f64 L (le_nat (take 8 bs))) (f_of_f64 L (le_nat (drop 8 bs)))))"

text \<open>
  \<^verbatim>\<open>np.frombuffer(packet, dtype, offset, count)\<close> with \<open>count \<ge> 0\<close>: a name that is
  no dtype (\<^verbatim>\<open>int24\<close>, \<^verbatim>\<open>uint24\<close>) raises \<^verbatim>\<open>TypeError\<close>; an offset
  beyond the buffer or a buffer shorter than the request raises \<^verbatim>\<open>ValueError\<close>.
\<close>

definition np_frombuffer :: "'f pylib \<Rightarrow> byte list \<Rightarrow> string \<Rightarrow> nat \<Rightarrow> nat \<Rightarrow> error + 'f num list" where
  "np_frombuffer L packet dt offset count =
    (case np_dtype dt of
       None \<Rightarrow> Inl TypeError
     | Some (k, sz) \<Rightarrow>
         if length packet < offset + count * sz then Inl ValueError
         else Inr (map (\<lambda>i. np_elem L k sz (take sz (drop (offset + i * sz) packet))) [0..<count]))"

text \<open>The slice \<^verbatim>\<open>data[k::3]\<close> of a one-dimensional array.\<close>

definition strided3 :: "nat \<Rightarrow> 'a list \<Rightarrow> 'a list" where
  "strided3 k xs = map (\<lambda>i. xs ! (k + 3 * i)) [0..<(length xs + 2 - k) div 3]"

fun the_int :: "'f num \<Rightarrow> int" where
  "the_int (I n) = n"
| "the_int (F x) = 0"
| "the_int (C x y) = 0"

text \<open>\<^verbatim>\<open>astype('int8')\<close> on a uint8 value: the same byte read as two's complement.\<close>

definition astype_int8 :: "int \<Rightarrow> int" where
  "astype_int8 v = (v + 128) mod 256 - 128"

text \<open>
  \<^verbatim>\<open>astype('float64')\<close>: a complex number keeps its real part. NumPy issues a
  \<^verbatim>\<open>ComplexWarning\<close> for it, which is not a message of \<^verbatim>\<open>logging\<close> and is not
  recorded in the receiver.
\<close>

fun astype_float64 :: "'f pylib \<Rightarrow> 'f num \<Rightarrow> 'f" where
  "astype_float64 L (I n) = f_of_int L n"
| "astype_float64 L (F x) = x"
| "astype_float64 L (C x y) = x"

text \<open>\<^verbatim>\<open>float(v)\<close> on a component of a scaling entry.\<close>

fun py_float :: "'f pylib \<Rightarrow> pyval \<Rightarrow> error + 'f" where
  "py_float L (PInt n) = Inr (f_of_int L n)"
| "py_float L (PStr s) = float_of_str L s"

subsection \<open>The receiver\<close>

record DtPacketInfo =
  protocol_version :: nat
  stream_id :: nat
  sequence_number :: nat
  stream_status :: nat
  seed :: nat
  number_of_subpackets :: nat

record DtXmlSubPacket =
  xml_content :: string
  xml_content_size :: int

text \<open>
  The fields of \<^verbatim>\<open>OxygenStreamReceiver\<close> that the packet methods read and write.
  \<open>channelValue\<close> is the list \<^verbatim>\<open>readPacket\<close> sets to \<^verbatim>\<open>[]\<close> before it calls
  \<^verbatim>\<open>processPacket\<close>; a block is its rows. \<open>warnings\<close> collects the messages of
  \<^verbatim>\<open>logging.warning\<close>.
\<close>

record 'f receiver =
  packet_info :: DtPacketInfo
  packet_xml :: "DtXmlSubPacket list"
  scaling_info :: "(pyval \<times> pyval) list"
  actual_channel_idx :: nat
  channelValue :: "'f num list list list"
  warnings :: "string list"

subsection \<open>readSamplesSync\<close>

text \<open>
  The two expressions that put the bytes of a 24-bit sample together, elementwise on the
  three strided slices of the uint8 array \<open>data\<close>:
  \<^verbatim>\<open>data[2::3].astype('int8').astype('int32')*2**16+data[1::3].astype('int32')*2**8+data[::3]\<close>
  and the same without \<^verbatim>\<open>astype('int8')\<close>. The sums stay inside int32.
\<close>

definition int24_compose :: "'f num list \<Rightarrow> 'f num list" where
  "int24_compose data =
    map (\<lambda>(h, m, l). I (astype_int8 (the_int h) * 2 ^ 16 + the_int m * 2 ^ 8 + the_int l))
      (zip (strided3 2 data) (zip (strided3 1 data) (strided3 0 data)))"

definition uint24_compose :: "'f num list \<Rightarrow> 'f num list" where
  "uint24_compose data =
    map (\<lambda>(h, m, l). I (the_int h * 2 ^ 16 + the_int m * 2 ^ 8 + the_int l))
      (zip (strided3 2 data) (zip (strided3 1 data) (strided3 0 data)))"

definition readSamplesSync :: "'f pylib \<Rightarrow> 'f receiver \<Rightarrow> byte list \<Rightarrow> nat \<Rightarrow> nat \<Rightarrow> string \<Rightarrow> error + 'f list" where
  "readSamplesSync L self packet pos num_samples sample_type =
    (if length (scaling_info self) \<le> actual_channel_idx self then Inl IndexError
     else case py_float L (fst (scaling_info self ! actual_channel_idx self)) of
       Inl e \<Rightarrow> Inl e
     | Inr f \<Rightarrow>
     (case py_float L (snd (scaling_info self ! actual_channel_idx self)) of
       Inl e \<Rightarrow> Inl e
     | Inr o_ \<Rightarrow>
     (case
        (if sample_type = ''int24'' then
           (case np_frombuffer L packet ''uint8'' (pos + DT_SYNC_FIXED_SIZE) (num_samples * 3) of
              Inl e \<Rightarrow> Inl e
            | Inr data \<Rightarrow>
                Inr (int24_compose data))
         else if sample_type = ''uint24'' then
           (case np_frombuffer L packet ''uint8'' (pos + DT_SYNC_FIXED_SIZE) (num_samples * 3) of
              Inl e \<Rightarrow> Inl e
            | Inr data \<Rightarrow>
                Inr (uint24_compose data))
         else np_frombuffer L packet sample_type (pos + DT_SYNC_FIXED_SIZE) num_samples)
      of
        Inl e \<Rightarrow> Inl e
      | Inr data \<Rightarrow> Inr (map (\<lambda>v. f_add L (f_mul L (astype_float64 L v) f) o_) data))))"

subsection \<open>The other three readers\<close>

definition itemsize :: "string \<Rightarrow> error + nat" where
  "itemsize dt = (case np_dtype dt of None \<Rightarrow> Inl TypeError | Some (k, sz) \<Rightarrow> Inr sz)"

text \<open>
  The loop of \<^verbatim>\<open>readArraySync\<close> over \<^verbatim>\<open>range(0, num_samples)\<close>, from the
  cursor \<open>cur\<close>; the rows still to come follow the row read here.
\<close>

primrec readArraySync_loop :: "'f pylib \<Rightarrow> byte list \<Rightarrow> nat \<Rightarrow> string \<Rightarrow> nat \<Rightarrow> nat \<Rightarrow> error + 'f num list list" where
  "readArraySync_loop L packet dimn sample_type cur 0 = Inr []"
| "readArraySync_loop L packet dimn sample_type cur (Suc n) =
    (case np_frombuffer L packet sample_type cur dimn of
       Inl e \<Rightarrow> Inl e
     | Inr row \<Rightarrow>
     (case itemsize sample_type of
       Inl e \<Rightarrow> Inl e
     | Inr sz \<Rightarrow>
     (case readArraySync_loop L packet dimn sample_type (cur + dimn * sz) n of
       Inl e \<Rightarrow> Inl e
     | Inr rows \<Rightarrow> Inr (row # rows))))"

definition readArraySync :: "'f pylib \<Rightarrow> byte list \<Rightarrow> nat \<Rightarrow> nat \<Rightarrow> nat \<Rightarrow> string \<Rightarrow> error + 'f num list list" where
  "readArraySync L packet pos dimn num_samples sample_type =
    readArraySync_loop L packet dimn sample_type (pos + DT_SYNC_FIXED_SIZE) num_samples"

text \<open>
  \<^verbatim>\<open>readSamplesAsync\<close> reads records of the packed dtype
  \<^verbatim>\<open>"uint64," + sample_type\<close>: field \<^verbatim>\<open>f0\<close> of 8 bytes, then field \<^verbatim>\<open>f1\<close>.
\<close>

definition readSamplesAsync :: "'f pylib \<Rightarrow> byte list \<Rightarrow> nat \<Rightarrow> nat \<Rightarrow> string \<Rightarrow> error + ('f num \<times> 'f num) list" where
  "readSamplesAsync L packet pos num_samples sample_type =
    (case np_dtype sample_type of
       None \<Rightarrow> Inl TypeError
     | Some (k, sz) \<Rightarrow>
         let offset = pos + DT_ASYNC_FIXED_SIZE in
         if length packet < offset + num_samples * (8 + sz) then Inl ValueError
         else Inr (map (\<lambda>i. (I (int (le_nat (take 8 (drop (offset + i * (8 + sz)) packet)))),
                             np_elem L k sz (take sz (drop (offset + i * (8 + sz) + 8) packet))))
                    [0..<num_samples]))"

primrec readArrayAsync_loop :: "'f pylib \<Rightarrow> byte list \<Rightarrow> nat \<Rightarrow> string \<Rightarrow> nat \<Rightarrow> nat \<Rightarrow> error + 'f num list list" where
  "readArrayAsync_loop L packet dimn sample_type cur 0 = Inr []"
| "readArrayAsync_loop L packet dimn sample_type cur (Suc n) =
    (case np_frombuffer L packet ''uint64'' cur 1 of
       Inl e \<Rightarrow> Inl e
     | Inr ts \<Rightarrow>
     (case np_frombuffer L packet sample_type (cur + 8) dimn of
       Inl e \<Rightarrow> Inl e
     | Inr samples \<Rightarrow>
     (case itemsize sample_type of
       Inl e \<Rightarrow> Inl e
     | Inr sz \<Rightarrow>
     (case readArrayAsync_loop L packet dimn sample_type (cur + 8 + dimn * sz) n of
       Inl e \<Rightarrow> Inl e
     | Inr rows \<Rightarrow> Inr ((hd ts # samples) # rows)))))"

definition readArrayAsync :: "'f pylib \<Rightarrow> byte list \<Rightarrow> nat \<Rightarrow> nat \<Rightarrow> nat \<Rightarrow> string \<Rightarrow> error + 'f num list list" where
  "readArrayAsync L packet pos dimn num_samples sample_type =
    readArrayAsync_loop L packet dimn sample_type (pos + DT_ASYNC_FIXED_SIZE) num_samples"

subsection \<open>readSamples\<close>

text \<open>
  What \<^verbatim>\<open>readSamples\<close> returns: a one-dimensional float64 array (the scaled samples,
  or \<^verbatim>\<open>np.empty(0)\<close>), a Python list of arrays of one dtype, a structured array of
  \<^verbatim>\<open>(f0, f1)\<close> records, or a Python list of lists. The list of arrays carries the
  kind of its dtype, which decides the dtype of \<^verbatim>\<open>np.c_\<close> later; \<^verbatim>\<open>readArraySync\<close>
  returns only for a name that is a dtype, so the kind is always found. With the data
  comes the message of \<^verbatim>\<open>logging.warning\<close>, if one was logged.
\<close>

datatype 'f samples =
    Arr1 "'f list"
  | ArrList kind "'f num list list"
  | Struct "('f num \<times> 'f num) list"
  | RowList "'f num list list"

definition readSamples :: "'f pylib \<Rightarrow> 'f receiver \<Rightarrow> byte list \<Rightarrow> nat \<Rightarrow> nat \<Rightarrow> nat \<Rightarrow> nat \<Rightarrow> nat \<Rightarrow> error + ('f samples \<times> string list)" where
  "readSamples L self packet channel_data_type dimn num_samples pos sample_type =
    (case DT_DATA_TYPE channel_data_type of
       None \<Rightarrow> Inl KeyError
     | Some (Some dtype) \<Rightarrow>
         if sample_type = SBT_SYNC_FIXED \<and> 0 < num_samples then
           (if dimn = 1 then
              (case readSamplesSync L self packet pos num_samples dtype of
                 Inl e \<Rightarrow> Inl e | Inr d \<Rightarrow> Inr (Arr1 d, []))
            else
              (case readArraySync L packet pos dimn num_samples dtype of
                 Inl e \<Rightarrow> Inl e
               | Inr d \<Rightarrow> Inr (ArrList (case np_dtype dtype of Some (k, sz) \<Rightarrow> k | None \<Rightarrow> Float) d, [])))
         else if sample_type = SBT_ASYNC_FIXED \<and> 0 < num_samples then
           (if dimn = 1 then
              (case readSamplesAsync L packet pos num_samples dtype of
                 Inl e \<Rightarrow> Inl e | Inr d \<Rightarrow> Inr (Struct d, []))
            else
              (case readArrayAsync L packet pos dimn num_samples dtype of
                 Inl e \<Rightarrow> Inl e | Inr d \<Rightarrow> Inr (RowList d, [])))
         else Inr (Arr1 [], [''No or invalid data received.''])
     | Some None \<Rightarrow> Inr (Arr1 [], [''Data type not supported yet by python'']))"

subsection \<open>Outcomes of the methods that change the receiver\<close>

datatype 'f outcome = Ok "'f receiver" | Raised error "'f receiver" | OutOfFuel

fun then_do :: "'f outcome \<Rightarrow> ('f receiver \<Rightarrow> 'f outcome) \<Rightarrow> 'f outcome" where
  "then_do (Ok s) k = k s"
| "then_do (Raised e s) k = Raised e s"
| "then_do OutOfFuel k = OutOfFuel"

subsection \<open>processSyncFixed and processAsyncFixed\<close>

text \<open>
  \<^verbatim>\<open>np.arange(T, T+N)/F\<close>. With \<open>N = 0\<close> the array is empty; while \<open>T + N\<close> is in
  the int64 range the array is int64 and each element is converted and divided.
\<close>

definition sync_timeStamps :: "'f pylib \<Rightarrow> nat \<Rightarrow> nat \<Rightarrow> 'f \<Rightarrow> error + 'f list" where
  "sync_timeStamps L T N Fq =
    (if N = 0 then Inr []
     else if T + N < 2 ^ 63 then Inr (map (\<lambda>i. f_div L (f_of_int L (int (T + i))) Fq) [0..<N])
     else arange_wide L (int T) N Fq)"

text \<open>
  The common dtype of \<^verbatim>\<open>np.c_\<close>: float64, or complex128 when the data is complex.
\<close>

fun promote :: "'f pylib \<Rightarrow> bool \<Rightarrow> 'f num \<Rightarrow> 'f num" where
  "promote L cplx (I n) = (if cplx then C (f_of_int L n) (f_of_int L 0) else F (f_of_int L n))"
| "promote L cplx (F x) = (if cplx then C x (f_of_int L 0) else F x)"
| "promote L cplx (C x y) = C x y"

fun is_complex :: "'f num \<Rightarrow> bool" where
  "is_complex (C x y) = True"
| "is_complex v = False"

text \<open>
  \<^verbatim>\<open>np.c_[timeStamps, data]\<close> in \<^verbatim>\<open>processSyncFixed\<close>: the time column beside
  the data, which must have as many rows (\<^verbatim>\<open>ValueError\<close> otherwise). The last two
  cases are not returned by \<open>readSamples\<close> for a sync sub-record.
\<close>

fun np_c_sync :: "'f pylib \<Rightarrow> 'f list \<Rightarrow> 'f samples \<Rightarrow> error + 'f num list list" where
  "np_c_sync L ts (Arr1 vs) =
    (if length vs \<noteq> length ts then Inl ValueError
     else Inr (map (\<lambda>(t, v). [F t, F v]) (zip ts vs)))"
| "np_c_sync L ts (ArrList k rows) =
    (if length rows \<noteq> length ts then Inl ValueError
     else Inr (map (\<lambda>(t, row). promote L (k = Complex) (F t) # map (promote L (k = Complex)) row) (zip ts rows)))"
| "np_c_sync L ts (Struct d) = Inl TypeError"
| "np_c_sync L ts (RowList d) = Inl TypeError"

definition processSyncFixed :: "'f pylib \<Rightarrow> 'f receiver \<Rightarrow> byte list \<Rightarrow> nat \<Rightarrow> 'f outcome" where
  "processSyncFixed L self packet pos =
    (case unpack_from DT_SYNC_FIXED_SIZE packet pos of
       Inl e \<Rightarrow> Raised e self
     | Inr h \<Rightarrow>
     (case readSamples L self packet (field h 0 4) (field h 4 4) (field h 8 4) pos SBT_SYNC_FIXED of
       Inl e \<Rightarrow> Raised e self
     | Inr (data, w) \<Rightarrow>
     (case sync_timeStamps L (field h 12 8) (field h 8 4) (f_of_f64 L (field h 20 8)) of
       Inl e \<Rightarrow> Raised e (self\<lparr>warnings := warnings self @ w\<rparr>)
     | Inr timeStamps \<Rightarrow>
     (case np_c_sync L timeStamps data of
       Inl e \<Rightarrow> Raised e (self\<lparr>warnings := warnings self @ w\<rparr>)
     | Inr block \<Rightarrow>
         Ok (self\<lparr>warnings := warnings self @ w,
                 channelValue := channelValue self @ [block],
                 actual_channel_idx := actual_channel_idx self + 1\<rparr>)))))"

text \<open>
  \<^verbatim>\<open>processAsyncFixed\<close> asks for \<^verbatim>\<open>data.size\<close>: an array has it, a Python list
  has not (\<^verbatim>\<open>AttributeError\<close>). A non-empty \<open>Arr1\<close> is not returned by
  \<open>readSamples\<close> for an async sub-record.
\<close>

fun async_block :: "'f pylib \<Rightarrow> 'f \<Rightarrow> 'f samples \<Rightarrow> error + 'f num list list" where
  "async_block L Fq (Arr1 vs) = (if 0 < length vs then Inl IndexError else Inr [])"
| "async_block L Fq (Struct d) =
    (if 0 < length d
     then Inr (map (\<lambda>(t, v). [promote L (is_complex v) (F (f_div L (astype_float64 L t) Fq)),
                               promote L (is_complex v) v]) d)
     else Inr [])"
| "async_block L Fq (RowList d) = Inl AttributeError"
| "async_block L Fq (ArrList k d) = Inl AttributeError"

definition processAsyncFixed :: "'f pylib \<Rightarrow> 'f receiver \<Rightarrow> byte list \<Rightarrow> nat \<Rightarrow> 'f outcome" where
  "processAsyncFixed L self packet pos =
    (case unpack_from DT_ASYNC_FIXED_SIZE packet pos of
       Inl e \<Rightarrow> Raised e self
     | Inr h \<Rightarrow>
     (case readSamples L self packet (field h 0 4) (field h 4 4) (field h 8 4) pos SBT_ASYNC_FIXED of
       Inl e \<Rightarrow> Raised e self
     | Inr (data, w) \<Rightarrow>
     (case async_block L (f_of_f64 L (field h 12 8)) data of
       Inl e \<Rightarrow> Raised e (self\<lparr>warnings := warnings self @ w\<rparr>)
     | Inr block \<Rightarrow>
         Ok (self\<lparr>warnings := warnings self @ w,
                 channelValue := channelValue self @ [block],
                 actual_channel_idx := actual_channel_idx self + 1\<rparr>))))"

subsection \<open>The metadata decoders\<close>

definition processPacketInfo :: "'f receiver \<Rightarrow> byte list \<Rightarrow> nat \<Rightarrow> 'f outcome" where
  "processPacketInfo self packet pos =
    (case unpack_from DT_PACKET_INFO_SIZE packet pos of
       Inl e \<Rightarrow> Raised e self
     | Inr h \<Rightarrow>
         Ok (self\<lparr>packet_info :=
               \<lparr>protocol_version = field h 0 4,
                stream_id = field h 4 4,
                sequence_number = field h 8 4,
                stream_status = field h 12 4,
                seed = field h 16 4,
                number_of_subpackets = field h 20 4\<rparr>\<rparr>))"

text \<open>
  The slice \<^verbatim>\<open>packet[a:b]\<close> with \<open>a \<ge> 0\<close>; a negative \<open>b\<close> counts from the end.
\<close>

definition py_slice :: "'a list \<Rightarrow> nat \<Rightarrow> int \<Rightarrow> 'a list" where
  "py_slice xs a b =
    (let n = int (length xs);
         stop = (if b < 0 then max 0 (n + b) else min b n)
     in take (nat stop - a) (drop a xs))"

definition scaling_entry :: "element \<Rightarrow> pyval \<times> pyval" where
  "scaling_entry c0 =
    ((case map_of (attrib c0) ''factor'' of None \<Rightarrow> PInt 1 | Some s \<Rightarrow> PStr s),
     (case map_of (attrib c0) ''offset'' of None \<Rightarrow> PInt 0 | Some s \<Rightarrow> PStr s))"

text \<open>
  The loop \<^verbatim>\<open>for child in root\<close> of \<^verbatim>\<open>parseScalingXML\<close>; \<^verbatim>\<open>child[0]\<close>
  raises \<^verbatim>\<open>IndexError\<close> on a child without sub-elements.
\<close>

fun parseScalingXML_loop :: "element list \<Rightarrow> 'f receiver \<Rightarrow> 'f outcome" where
  "parseScalingXML_loop [] self = Ok self"
| "parseScalingXML_loop (child # rest) self =
    (case children child of
       [] \<Rightarrow> Raised IndexError self
     | c0 # cs \<Rightarrow>
         parseScalingXML_loop rest (self\<lparr>scaling_info := scaling_info self @ [scaling_entry c0]\<rparr>))"

definition parseScalingXML :: "'f pylib \<Rightarrow> 'f receiver \<Rightarrow> string \<Rightarrow> 'f outcome" where
  "parseScalingXML L self content =
    (case et_fromstring L content of
       Inl e \<Rightarrow> Raised e self
     | Inr rt \<Rightarrow>
         if tag rt = ''ChannelInfo'' then parseScalingXML_loop (children rt) self
         else Ok self)"

definition processXmlConfig :: "'f pylib \<Rightarrow> 'f receiver \<Rightarrow> byte list \<Rightarrow> nat \<Rightarrow> int \<Rightarrow> 'f outcome" where
  "processXmlConfig L self packet pos sz =
    (case bytes_decode L (py_slice packet pos (int pos + sz)) of
       Inl e \<Rightarrow> Raised e self
     | Inr content \<Rightarrow>
         parseScalingXML L
           (self\<lparr>packet_xml := packet_xml self @ [\<lparr>xml_content = content, xml_content_size = sz\<rparr>]\<rparr>)
           content)"

subsection \<open>processPacket\<close>

text \<open>The four \<^verbatim>\<open>if\<close> statements of the loop body, one after the other.\<close>

definition dispatch :: "'f pylib \<Rightarrow> 'f receiver \<Rightarrow> byte list \<Rightarrow> nat \<Rightarrow> nat \<Rightarrow> nat \<Rightarrow> 'f outcome" where
  "dispatch L self packet pos sub_packet_size sub_packet_type =
    then_do (if SBT_PACKET_INFO = sub_packet_type
             then processPacketInfo self packet (pos + DT_SUBPACKET_HEADER_SIZE)
             else Ok self)
    (\<lambda>s1. then_do (if SBT_XML_CONFIG = sub_packet_type
                   then processXmlConfig L s1 packet (pos + DT_SUBPACKET_HEADER_SIZE)
                          (int sub_packet_size - int DT_SUBPACKET_HEADER_SIZE)
                   else Ok s1)
    (\<lambda>s2. then_do (if SBT_SYNC_FIXED = sub_packet_type
                   then processSyncFixed L s2 packet (pos + DT_SUBPACKET_HEADER_SIZE)
                   else Ok s2)
    (\<lambda>s3. if SBT_ASYNC_FIXED = sub_packet_type
          then processAsyncFixed L s3 packet (pos + DT_SUBPACKET_HEADER_SIZE)
          else Ok s3)))"

text \<open>
  The \<^verbatim>\<open>while\<close> loop of \<^verbatim>\<open>processPacket\<close>. It need not end, so it runs on
  fuel: one unit per iteration, \<open>OutOfFuel\<close> when an iteration is due and none is left.
  \<open>hit_footer\<close> is the loop's variable of that name; the body never assigns it.
\<close>

fun processPacket_loop :: "nat \<Rightarrow> 'f pylib \<Rightarrow> 'f receiver \<Rightarrow> byte list \<Rightarrow> nat \<Rightarrow> bool \<Rightarrow> 'f outcome" where
  "processPacket_loop 0 L self packet pos hit_footer =
    (if pos < length packet \<and> \<not> hit_footer then OutOfFuel else Ok self)"
| "processPacket_loop (Suc fuel) L self packet pos hit_footer =
    (if pos < length packet \<and> \<not> hit_footer then
       (case unpack_from DT_SUBPACKET_HEADER_SIZE packet pos of
          Inl e \<Rightarrow> Raised e self
        | Inr h \<Rightarrow>
            then_do (dispatch L self packet pos (field h 0 4) (field h 4 4))
              (\<lambda>s. processPacket_loop fuel L s packet (pos + field h 0 4) hit_footer))
     else Ok self)"

definition processPacket :: "nat \<Rightarrow> 'f pylib \<Rightarrow> 'f receiver \<Rightarrow> byte list \<Rightarrow> 'f outcome" where
  "processPacket fuel L self packet =
    processPacket_loop fuel L (self\<lparr>actual_channel_idx := 0\<rparr>) packet 0 False"

subsection \<open>recvFixedSize\<close>

text \<open>
  A socket is the script of what its next reads deliver: a chunk of bytes that has
  arrived, or a timeout. When the script is used up the peer has closed the connection,
  and \<^verbatim>\<open>recv_into\<close> returns 0 from then on. \<^verbatim>\<open>recv_into(view, k)\<close> takes at most
  \<open>k\<close> bytes of the chunk and leaves the rest for the next read.
\<close>

datatype recv_event = Chunk "byte list" | Timeout

fun recv_into :: "recv_event list \<Rightarrow> nat \<Rightarrow> (error + byte list) \<times> recv_event list" where
  "recv_into [] k = (Inr [], [])"
| "recv_into (Timeout # es) k = (Inl SocketTimeout, es)"
| "recv_into (Chunk bs # es) k =
    (Inr (take k bs), if length bs \<le> k then es else Chunk (drop k bs) # es)"

datatype recv_result = Received "byte list" "recv_event list" | RecvRaised error "recv_event list" | RecvOutOfFuel

text \<open>
  The loop \<^verbatim>\<open>while data_to_read\<close>; \<open>data\<close> is the part of the buffer filled so far.
\<close>

fun recvFixedSize_loop :: "nat \<Rightarrow> recv_event list \<Rightarrow> byte list \<Rightarrow> nat \<Rightarrow> recv_result" where
  "recvFixedSize_loop 0 s data data_to_read =
    (if data_to_read \<noteq> 0 then RecvOutOfFuel else Received data s)"
| "recvFixedSize_loop (Suc fuel) s data data_to_read =
    (if data_to_read \<noteq> 0 then
       (case recv_into s data_to_read of
          (Inl e, s') \<Rightarrow> RecvRaised e s'
        | (Inr bs, s') \<Rightarrow> recvFixedSize_loop fuel s' (data @ bs) (data_to_read - length bs))
     else Received data s)"

definition recvFixedSize :: "nat \<Rightarrow> recv_event list \<Rightarrow> int \<Rightarrow> recv_result" where
  "recvFixedSize fuel s sz =
    (if sz < 0 then RecvRaised ValueError s
     else recvFixedSize_loop fuel s [] (nat sz))"

subsection \<open>The library with exact arithmetic\<close>

text \<open>
  The value of a finite IEEE 754 bit pattern with \<open>eb\<close> exponent bits and \<open>mb\<close>
  fraction bits. The patterns of the infinities and of NaN have no real value, and
  \<open>exact_lib\<close> is used on finite patterns only; likewise it is not used to divide by 0.
\<close>

definition ieee_real :: "nat \<Rightarrow> nat \<Rightarrow> nat \<Rightarrow> real" where
  "ieee_real eb mb bits =
    (let m = bits mod 2 ^ mb;
         e = (bits div 2 ^ mb) mod 2 ^ eb;
         sg = (if (bits div 2 ^ (mb + eb)) mod 2 = 1 then - 1 else 1);
         bias = 2 ^ (eb - 1) - 1
     in if e = 0 then sg * real m / 2 ^ (bias - 1 + mb)
        else if bias + mb \<le> e then sg * real (2 ^ mb + m) * 2 ^ (e - (bias + mb))
        else sg * real (2 ^ mb + m) / 2 ^ (bias + mb - e))"

definition exact_lib :: "(string \<Rightarrow> error + real) \<Rightarrow> (byte list \<Rightarrow> error + string) \<Rightarrow> (string \<Rightarrow> error + element) \<Rightarrow> real pylib" where
  "exact_lib flt dec xml =
    \<lparr>f_of_int = real_of_int,
     f_of_f32 = ieee_real 8 23,
     f_of_f64 = ieee_real 11 52,
     f_mul = (\<lambda>x y. x * y),
     f_add = (\<lambda>x y. x + y),
     f_div = (\<lambda>x y. x / y),
     float_of_str = flt,
     bytes_decode = dec,
     et_fromstring = xml,
     arange_wide = (\<lambda>T N Fq. Inr (map (\<lambda>i. (real_of_int T + real i) / Fq) [0..<N]))\<rparr>"

subsection \<open>The 24-bit values as the specification words them\<close>

text \<open>
  The value of sample \<open>i\<close> of a buffer whose samples start at \<open>base\<close>: byte 0 is the
  low byte, byte 1 the middle byte, byte 2 the high byte, sign-extended for int24 and
  unsigned for uint24.
\<close>

definition int24_value :: "byte list \<Rightarrow> nat \<Rightarrow> nat \<Rightarrow> int" where
  "int24_value packet base i =
     sint (packet ! (base + 3 * i + 2)) * 65536 + uint (packet ! (base + 3 * i + 1)) * 256 + uint (packet ! (base + 3 * i))"

definition uint24_value :: "byte list \<Rightarrow> nat \<Rightarrow> nat \<Rightarrow> int" where
  "uint24_value packet base i =
     uint (packet ! (base + 3 * i + 2)) * 65536 + uint (packet ! (base + 3 * i + 1)) * 256 + uint (packet ! (base + 3 * i))"

subsection \<open>Concrete receivers, libraries and packets\<close>

text \<open>The receiver as \<^verbatim>\<open>__init__\<close> leaves it, with \<open>channelValue\<close> empty.\<close>

definition receiver0 :: "'f receiver" where
  "receiver0 =
    \<lparr>packet_info = \<lparr>protocol_version = 0, stream_id = 0, sequence_number = 0,
                     stream_status = 0, seed = 0, number_of_subpackets = 0\<rparr>,
     packet_xml = [], scaling_info = [], actual_channel_idx = 0, channelValue = [], warnings = []\<rparr>"

text \<open>The exact library for packets without text: every text function raises.\<close>

definition no_text_lib :: "real pylib" where
  "no_text_lib = exact_lib (\<lambda>s. Inl ValueError) (\<lambda>b. Inl UnicodeDecodeError) (\<lambda>s. Inl ParseError)"

text \<open>The packet of \<^verbatim>\<open>test_readSamplesSync\<close> in tests/test\_oxygendst.py.\<close>

definition test_packet :: "byte list" where
  "test_packet = replicate DT_SYNC_FIXED_SIZE 0 @ [0x00, 0x00, 0x00, 0x01, 0x00, 0x00, 0xff, 0xff, 0xff]"

subsection \<open>The end-to-end scenario\<close>

text \<open>
  The synthetic packet: a packet-info sub-record (status 0), an xml-config sub-record
  whose document declares one channel with factor 1 and offset 0, and a sync-fixed
  sub-record (dtype 10, dimension 1, 3 samples, start 0, frequency 1.0) with the float32
  values 1.0, 2.0, 3.0. \<open>scenario_tree\<close> is the element tree of the document.
  \<open>scenario_float\<close>, \<open>scenario_decode\<close> and \<open>scenario_fromstring\<close> stand for the
  library on the texts of the scenario, and raise on every other text.
\<close>

definition scenario_xml :: string where
  \<open>scenario_xml = ''<ChannelInfo><Channel><Scaling factor="1" offset="0"/></Channel></ChannelInfo>''\<close>

definition scenario_tree :: element where
  "scenario_tree =
    Element ''ChannelInfo'' []
      [Element ''Channel'' [] [Element ''Scaling'' [(''factor'', ''1''), (''offset'', ''0'')] []]]"

definition scenario_xml_bytes :: "byte list" where
  "scenario_xml_bytes = map of_char scenario_xml"

definition scenario_packet :: "byte list" where
  "scenario_packet =
     [32, 0, 0, 0,  1, 0, 0, 0,
      0, 0, 5, 1,  0, 0, 0, 0,  0, 0, 0, 0,  0, 0, 0, 0,  0, 0, 0, 0,  3, 0, 0, 0]
   @ ([86, 0, 0, 0,  2, 0, 0, 0] @ scenario_xml_bytes)
   @ [48, 0, 0, 0,  3, 0, 0, 0,
      10, 0, 0, 0,  1, 0, 0, 0,  3, 0, 0, 0,
      0, 0, 0, 0, 0, 0, 0, 0,
      0, 0, 0, 0, 0, 0, 0xf0, 0x3f,
      0, 0, 0x80, 0x3f,  0, 0, 0, 0x40,  0, 0, 0x40, 0x40]"

definition scenario_float :: "string \<Rightarrow> error + real" where
  "scenario_float s = (if s = ''1'' then Inr 1 else if s = ''0'' then Inr 0 else Inl ValueError)"

definition scenario_decode :: "byte list \<Rightarrow> error + string" where
  "scenario_decode bs = (if bs = scenario_xml_bytes then Inr scenario_xml else Inl UnicodeDecodeError)"

definition scenario_fromstring :: "string \<Rightarrow> error + element" where
  "scenario_fromstring s = (if s = scenario_xml then Inr scenario_tree else Inl ParseError)"

subsection \<open>A sync-fixed sub-record with two uint8 samples\<close>

text \<open>
  dtype 1, dimension 1, 2 samples, start timestamp 10, frequency 2.0 and the samples 7
  and 9; \<open>sync_example_result\<close> is the receiver after \<^verbatim>\<open>processSyncFixed\<close>.
\<close>

definition sync_example :: "byte list" where
  "sync_example =
     [1, 0, 0, 0,  1, 0, 0, 0,  2, 0, 0, 0,
      10, 0, 0, 0, 0, 0, 0, 0,
      0, 0, 0, 0, 0, 0, 0, 0x40,
      7, 9]"

definition sync_example_result :: "real receiver" where
  "sync_example_result =
    \<lparr>packet_info = \<lparr>protocol_version = 0, stream_id = 0, sequence_number = 0,
                     stream_status = 0, seed = 0, number_of_subpackets = 0\<rparr>,
     packet_xml = [], scaling_info = [(PInt 1, PInt 0)], actual_channel_idx = 1,
     channelValue = [[[F 5, F 7], [F (11 / 2), F 9]]], warnings = []\<rparr>"

subsection \<open>What an outcome keeps of the receiver\<close>

text \<open>
  \<open>keeps_blocks s out\<close>: the receiver that \<open>out\<close> returns, or that its exception
  leaves, has the blocks of \<open>s\<close> as the first blocks of its \<open>channelValue\<close>, unchanged
  and in the same order. \<open>keeps_scaling\<close> is the same for the scaling table, and
  \<open>grows\<close> is both. \<open>appends_one_block s out\<close>: a returning \<open>out\<close> has exactly one
  block after those of \<open>s\<close>, and a raising one has the blocks of \<open>s\<close> and no other.
\<close>

definition grows :: "'f receiver \<Rightarrow> 'f receiver \<Rightarrow> bool" where
  "grows s s' = (prefix (channelValue s) (channelValue s') \<and> prefix (scaling_info s) (scaling_info s'))"

definition outcome_grows :: "'f receiver \<Rightarrow> 'f outcome \<Rightarrow> bool" where
  "outcome_grows s out =
    (case out of Ok s' \<Rightarrow> grows s s' | Raised e s' \<Rightarrow> grows s s' | OutOfFuel \<Rightarrow> True)"

definition keeps_blocks :: "'f receiver \<Rightarrow> 'f outcome \<Rightarrow> bool" where
  "keeps_blocks s out =
    (case out of
       Ok s' \<Rightarrow> prefix (channelValue s) (channelValue s')
     | Raised e s' \<Rightarrow> prefix (channelValue s) (channelValue s')
     | OutOfFuel \<Rightarrow> True)"

definition appends_one_block :: "'f receiver \<Rightarrow> 'f outcome \<Rightarrow> bool" where
  "appends_one_block s out =
    (case out of
       Ok s' \<Rightarrow> length (channelValue s') = Suc (length (channelValue s))
                \<and> take (length (channelValue s)) (channelValue s') = channelValue s
     | Raised e s' \<Rightarrow> channelValue s' = channelValue s
     | OutOfFuel \<Rightarrow> False)"

definition keeps_scaling :: "'f receiver \<Rightarrow> 'f outcome \<Rightarrow> bool" where
  "keeps_scaling s out =
    (case out of
       Ok s' \<Rightarrow> prefix (scaling_info s) (scaling_info s')
     | Raised e s' \<Rightarrow> prefix (scaling_info s) (scaling_info s')
     | OutOfFuel \<Rightarrow> True)"

subsection \<open>A packet whose second sub-record fails\<close>

text \<open>
  The sub-record of \<open>sync_example\<close>, then a sync-fixed sub-record of dtype code 14 with
  one sample.
\<close>

definition two_sync_packet :: "byte list" where
  "two_sync_packet =
     ([38, 0, 0, 0,  3, 0, 0, 0] @ sync_example)
   @ [36, 0, 0, 0,  3, 0, 0, 0,
      14, 0, 0, 0,  1, 0, 0, 0,  1, 0, 0, 0,
      0, 0, 0, 0, 0, 0, 0, 0,
      0, 0, 0, 0, 0, 0, 0, 0x40]"

subsection \<open>Further packets\<close>

text \<open>
  \<open>complex_example\<close>: a sync-fixed body of dtype complex64 with the one sample
  \<open>3 + 4j\<close>, start 0, frequency 1.0. \<open>zero_count_packet\<close>: a sync-fixed sub-record of
  dtype code 14 with no sample. \<open>footer_first_packet\<close>: a footer sub-record, then the
  sub-record of \<open>sync_example\<close>. \<open>async_array_example\<close>: an async-fixed body of
  dtype uint8 and dimension 2 with one sample, timestamp 1000 and values 7 and 9,
  frequency 2.0. \<open>overrun_packet\<close>: one footer header that declares 100 bytes in a
  payload of 8. \<open>zero_size_packet\<close>: one footer header that declares 0 bytes.
\<close>

definition complex_example :: "byte list" where
  "complex_example =
     [12, 0, 0, 0,  1, 0, 0, 0,  1, 0, 0, 0,
      0, 0, 0, 0, 0, 0, 0, 0,
      0, 0, 0, 0, 0, 0, 0xf0, 0x3f,
      0, 0, 0x40, 0x40,  0, 0, 0x80, 0x40]"

definition zero_count_packet :: "byte list" where
  "zero_count_packet =
     [36, 0, 0, 0,  3, 0, 0, 0,
      14, 0, 0, 0,  1, 0, 0, 0,  0, 0, 0, 0,
      0, 0, 0, 0, 0, 0, 0, 0,
      0, 0, 0, 0, 0, 0, 0xf0, 0x3f]"

definition footer_first_packet :: "byte list" where
  "footer_first_packet = [8, 0, 0, 0,  7, 0, 0, 0] @ ([38, 0, 0, 0,  3, 0, 0, 0] @ sync_example)"

definition async_array_example :: "byte list" where
  "async_array_example =
     [1, 0, 0, 0,  2, 0, 0, 0,  1, 0, 0, 0,
      0, 0, 0, 0, 0, 0, 0, 0x40,
      0xe8, 3, 0, 0, 0, 0, 0, 0,  7, 9]"

definition overrun_packet :: "byte list" where
  "overrun_packet = [100, 0, 0, 0,  7, 0, 0, 0]"

definition zero_size_packet :: "byte list" where
  "zero_size_packet = [0, 0, 0, 0,  7, 0, 0, 0]"

section \<open>Properties\<close>

subsection \<open>Helper lemmas\<close>

lemma astype_int8_uint: "astype_int8 (uint (b::byte)) = sint b"
  by (simp add: astype_int8_def sint_uint signed_take_bit_eq_take_bit_shift take_bit_eq_mod)

lemma length_strided3: "k < 3 \<Longrightarrow> length xs = 3 * n \<Longrightarrow> length (strided3 k xs) = n"
  by (auto simp: strided3_def)

lemma nth_strided3: "i < length (strided3 k xs) \<Longrightarrow> strided3 k xs ! i = xs ! (k + 3 * i)"
  by (simp add: strided3_def)

lemma frombuffer_uint8:
  "offset + count \<le> length packet \<Longrightarrow>
   np_frombuffer L packet ''uint8'' offset count = Inr (map (\<lambda>i. I (uint (packet ! (offset + i)))) [0..<count])"
  by (auto simp: np_frombuffer_def np_dtype_def np_elem_def take_Suc_conv_app_nth hd_drop_conv_nth
      intro!: nth_equalityI)

lemma triples_map:
  assumes "length data = 3 * n"
  shows "map g (zip (strided3 2 data) (zip (strided3 1 data) (strided3 0 data)))
       = map (\<lambda>i. g (data ! (2 + 3 * i), data ! (1 + 3 * i), data ! (3 * i))) [0..<n]"
  using assms by (auto simp: length_strided3 nth_strided3 intro!: nth_equalityI)

lemma upt3: "[0..<3] = [0, 1, 2]"
  by (simp add: upt_rec)

lemma then_do_Ok: "then_do out Ok = out"
  by (cases out) simp_all

lemma DT_DATA_TYPE_cases:
  "c < 14 \<Longrightarrow> \<exists>dt. DT_DATA_TYPE c = Some (Some dt)"
  "14 \<le> c \<Longrightarrow> c < 16 \<Longrightarrow> DT_DATA_TYPE c = Some None"
  by (auto simp: DT_DATA_TYPE_def) arith

lemma loop_at_end: "length packet \<le> pos \<Longrightarrow> processPacket_loop fuel L s packet pos hf = Ok s"
  by (cases fuel) simp_all

lemma upt2: "[0..<2] = [0, 1]"
  by (simp add: upt_rec)

lemmas sbt_defs = SBT_PACKET_INFO_def SBT_XML_CONFIG_def SBT_SYNC_FIXED_def SBT_ASYNC_FIXED_def
  DT_SUBPACKET_HEADER_SIZE_def DT_PACKET_INFO_SIZE_def DT_SYNC_FIXED_SIZE_def DT_ASYNC_FIXED_SIZE_def

lemma exact_lib_sel [simp]:
  "f_of_int (exact_lib flt dec xml) = real_of_int"
  "f_of_f32 (exact_lib flt dec xml) = ieee_real 8 23"
  "f_of_f64 (exact_lib flt dec xml) = ieee_real 11 52"
  "f_mul (exact_lib flt dec xml) = (\<lambda>x y. x * y)"
  "f_add (exact_lib flt dec xml) = (\<lambda>x y. x + y)"
  "f_div (exact_lib flt dec xml) = (\<lambda>x y. x / y)"
  "float_of_str (exact_lib flt dec xml) = flt"
  "bytes_decode (exact_lib flt dec xml) = dec"
  "et_fromstring (exact_lib flt dec xml) = xml"
  by (simp_all add: exact_lib_def)

subsection \<open>24-bit samples\<close>

text \<open>
  Claim C2. For every buffer that holds \<open>n\<close> samples of 3 bytes behind the sync header,
  and a scaling entry \<open>(f, ofs)\<close> at the current channel index, \<^verbatim>\<open>readSamplesSync\<close>
  returns for sample \<open>i\<close> the value \<open>sign_extend(high)*65536 + mid*256 + low\<close> (int24)
  or the same with the high byte unsigned (uint24), converted to float64, times \<open>f\<close>
  plus \<open>ofs\<close>.
\<close>

theorem readSamplesSync_24bit:
  assumes idx: "actual_channel_idx self < length (scaling_info self)"
    and f: "py_float L (fst (scaling_info self ! actual_channel_idx self)) = Inr f"
    and ofs: "py_float L (snd (scaling_info self ! actual_channel_idx self)) = Inr ofs"
    and len: "pos + DT_SYNC_FIXED_SIZE + 3 * n \<le> length packet"
  shows "readSamplesSync L self packet pos n ''int24'' =
           Inr (map (\<lambda>i. f_add L (f_mul L (f_of_int L (int24_value packet (pos + DT_SYNC_FIXED_SIZE) i)) f) ofs) [0..<n])
       \<and> readSamplesSync L self packet pos n ''uint24'' =
           Inr (map (\<lambda>i. f_add L (f_mul L (f_of_int L (uint24_value packet (pos + DT_SYNC_FIXED_SIZE) i)) f) ofs) [0..<n])"
proof -
  let ?base = "pos + DT_SYNC_FIXED_SIZE"
  let ?data = "map (\<lambda>i. I (uint (packet ! (?base + i)))) [0..<n * 3] :: 'a num list"
  have fb: "np_frombuffer L packet ''uint8'' ?base (n * 3) = Inr ?data"
    using len by (intro frombuffer_uint8) simp
  have l: "length ?data = 3 * n" by simp
  have nth: "?data ! (k + 3 * i) = I (uint (packet ! (?base + 3 * i + k)))" if "i < n" "k < 3" for i k
  proof -
    have "k + 3 * i < n * 3" using that by simp
    then show ?thesis by (simp add: add.commute add.left_commute)
  qed
  have s: "int24_compose ?data = map (\<lambda>i. I (int24_value packet ?base i)) [0..<n]"
    unfolding int24_compose_def triples_map [OF l]
    using nth [of _ 0] nth [of _ 1] nth [of _ 2]
    by (simp add: int24_value_def astype_int8_uint del: upt_Suc nth_map)
  have u: "uint24_compose ?data = map (\<lambda>i. I (uint24_value packet ?base i)) [0..<n]"
    unfolding uint24_compose_def triples_map [OF l]
    using nth [of _ 0] nth [of _ 1] nth [of _ 2]
    by (simp add: uint24_value_def del: upt_Suc nth_map)
  have "readSamplesSync L self packet pos n ''int24'' =
           Inr (map (\<lambda>i. f_add L (f_mul L (f_of_int L (int24_value packet ?base i)) f) ofs) [0..<n])"
    using idx f ofs unfolding readSamplesSync_def fb
    by (simp add: s comp_def del: upt_Suc)
  moreover have "readSamplesSync L self packet pos n ''uint24'' =
           Inr (map (\<lambda>i. f_add L (f_mul L (f_of_int L (uint24_value packet ?base i)) f) ofs) [0..<n])"
    using idx f ofs unfolding readSamplesSync_def fb
    by (simp add: u comp_def del: upt_Suc)
  ultimately show ?thesis by simp
qed

text \<open>
  The test of the repository: the bytes \<open>00 00 00\<close>, \<open>01 00 00\<close>, \<open>ff ff ff\<close> with
  factor 2 and offset 1 give 1, 3, -1 as int24 and 1, 3, 33554431 as uint24.
\<close>

theorem readSamplesSync_24bit_witness:
  "readSamplesSync no_text_lib (receiver0\<lparr>scaling_info := [(PInt 2, PInt 1)]\<rparr>) test_packet 0 3 ''int24'' = Inr [1, 3, - 1]
 \<and> readSamplesSync no_text_lib (receiver0\<lparr>scaling_info := [(PInt 2, PInt 1)]\<rparr>) test_packet 0 3 ''uint24'' = Inr [1, 3, 33554431]"
  using readSamplesSync_24bit [of "receiver0\<lparr>scaling_info := [(PInt 2, PInt 1)]\<rparr>" no_text_lib 2 1 0 3 test_packet]
  by (simp add: receiver0_def no_text_lib_def exact_lib_def test_packet_def DT_SYNC_FIXED_SIZE_def
      int24_value_def uint24_value_def upt3 nth_append)

text \<open>
  Both values fit in 24 bits, so the int32 sums of \<^verbatim>\<open>readSamplesSync\<close> do not wrap.
\<close>

lemma int24_value_range:
  "- 8388608 \<le> int24_value packet base i \<and> int24_value packet base i < 8388608"
proof -
  have h: "- 128 \<le> sint (packet ! (base + 3 * i + 2))" "sint (packet ! (base + 3 * i + 2)) < 128"
    using sint_ge [of "packet ! (base + 3 * i + 2)"] sint_lt [of "packet ! (base + 3 * i + 2)"] by simp_all
  have m: "0 \<le> uint (packet ! (base + 3 * i + 1))" "uint (packet ! (base + 3 * i + 1)) < 256"
    using uint_bounded [of "packet ! (base + 3 * i + 1)"] by simp_all
  have l: "0 \<le> uint (packet ! (base + 3 * i))" "uint (packet ! (base + 3 * i)) < 256"
    using uint_bounded [of "packet ! (base + 3 * i)"] by simp_all
  from h m l show ?thesis unfolding int24_value_def by linarith
qed

lemma uint24_value_range:
  "0 \<le> uint24_value packet base i \<and> uint24_value packet base i < 16777216"
proof -
  have h: "0 \<le> uint (packet ! (base + 3 * i + 2))" "uint (packet ! (base + 3 * i + 2)) < 256"
    using uint_bounded [of "packet ! (base + 3 * i + 2)"] by simp_all
  have m: "0 \<le> uint (packet ! (base + 3 * i + 1))" "uint (packet ! (base + 3 * i + 1)) < 256"
    using uint_bounded [of "packet ! (base + 3 * i + 1)"] by simp_all
  have l: "0 \<le> uint (packet ! (base + 3 * i))" "uint (packet ! (base + 3 * i)) < 256"
    using uint_bounded [of "packet ! (base + 3 * i)"] by simp_all
  from h m l show ?thesis unfolding uint24_value_def by linarith
qed

subsection \<open>The end-to-end scenario\<close>

lemmas scen_defs = scenario_packet_def scenario_xml_bytes_def scenario_xml_def

lemma scen_len: "length scenario_packet = 166"
  by (simp add: scen_defs)

lemma scen_h1: "unpack_from 8 scenario_packet 0 = Inr [32, 0, 0, 0, 1, 0, 0, 0]"
  by (simp add: unpack_from_def scen_defs)

lemma scen_d1: "dispatch L s scenario_packet 0 32 1 =
   Ok (s\<lparr>packet_info := \<lparr>protocol_version = 17104896, stream_id = 0, sequence_number = 0,
          stream_status = 0, seed = 0, number_of_subpackets = 3\<rparr>\<rparr>)"
  by (simp add: dispatch_def sbt_defs processPacketInfo_def unpack_from_def field_def scen_defs)

lemma scen_h2: "unpack_from 8 scenario_packet 32 = Inr [86, 0, 0, 0, 2, 0, 0, 0]"
  by (simp add: unpack_from_def scen_defs)

lemma scen_slice: "py_slice scenario_packet 40 118 = scenario_xml_bytes"
  by (simp add: py_slice_def scen_defs)


lemma scen_d2:
  assumes "dec scenario_xml_bytes = Inr scenario_xml" "xml scenario_xml = Inr scenario_tree"
  shows "dispatch (exact_lib flt dec xml) s scenario_packet 32 86 2 =
     Ok (s\<lparr>packet_xml := packet_xml s @ [\<lparr>xml_content = scenario_xml, xml_content_size = 78\<rparr>],
           scaling_info := scaling_info s @ [(PStr ''1'', PStr ''0'')]\<rparr>)"
  using assms
  by (simp add: dispatch_def sbt_defs processXmlConfig_def scen_slice parseScalingXML_def
      scenario_tree_def scaling_entry_def)

lemma scen_h3: "unpack_from 8 scenario_packet 118 = Inr [48, 0, 0, 0, 3, 0, 0, 0]"
  by (simp add: unpack_from_def scen_defs)

lemma scen_sync_header: "unpack_from 28 scenario_packet 126 =
   Inr [10, 0, 0, 0,  1, 0, 0, 0,  3, 0, 0, 0,  0, 0, 0, 0, 0, 0, 0, 0, 0, 0, 0, 0, 0, 0, 0xf0, 0x3f]"
  by (simp add: unpack_from_def scen_defs)

lemma scen_samples: "np_frombuffer (exact_lib flt dec xml) scenario_packet ''float32'' 154 3 = Inr [F 1, F 2, F 3]"
  by (simp add: np_frombuffer_def np_dtype_def scen_defs upt3 np_elem_def ieee_real_def Let_def)

lemma scen_read:
  assumes "flt ''1'' = Inr 1" "flt ''0'' = Inr 0"
    and "scaling_info s = [(PStr ''1'', PStr ''0'')]" "actual_channel_idx s = 0"
  shows "readSamplesSync (exact_lib flt dec xml) s scenario_packet 126 3 ''float32'' = Inr [1, 2, 3]"
  using assms
  by (simp add: readSamplesSync_def DT_SYNC_FIXED_SIZE_def scen_samples)

lemma scen_d3:
  assumes "flt ''1'' = Inr 1" "flt ''0'' = Inr 0"
    and "scaling_info s = [(PStr ''1'', PStr ''0'')]" "actual_channel_idx s = 0"
  shows "dispatch (exact_lib flt dec xml) s scenario_packet 118 48 3 =
      Ok (s\<lparr>warnings := warnings s,
            channelValue := channelValue s @ [[[F 0, F 1], [F 1, F 2], [F 2, F 3]]],
            actual_channel_idx := 1\<rparr>)"
  using assms(3,4)
  by (simp add: dispatch_def sbt_defs processSyncFixed_def scen_sync_header field_def
     readSamples_def DT_DATA_TYPE_def scen_read [of flt, OF assms] sync_timeStamps_def upt3
     ieee_real_def Let_def)

lemma scen_loop1: "processPacket_loop (Suc n) L s scenario_packet 0 False =
    then_do (dispatch L s scenario_packet 0 32 1) (\<lambda>s'. processPacket_loop n L s' scenario_packet 32 False)"
  by (simp add: scen_len scen_h1 DT_SUBPACKET_HEADER_SIZE_def field_def)

lemma scen_loop2: "processPacket_loop (Suc n) L s scenario_packet 32 False =
    then_do (dispatch L s scenario_packet 32 86 2) (\<lambda>s'. processPacket_loop n L s' scenario_packet 118 False)"
  by (simp add: scen_len scen_h2 DT_SUBPACKET_HEADER_SIZE_def field_def)

lemma scen_loop3: "processPacket_loop (Suc n) L s scenario_packet 118 False =
    then_do (dispatch L s scenario_packet 118 48 3) (\<lambda>s'. processPacket_loop n L s' scenario_packet 166 False)"
  by (simp add: scen_len scen_h3 DT_SUBPACKET_HEADER_SIZE_def field_def)

text \<open>
  Claim C1. On the synthetic packet \<open>scenario_packet\<close>, with a library that decodes
  and parses the document of the xml-config sub-record to \<open>scenario_tree\<close> and reads
  the texts \<open>1\<close> and \<open>0\<close> as the floats 1 and 0, \<^verbatim>\<open>processPacket\<close> returns after
  three iterations with exactly one decoded block, whose rows are
  \<open>[[0,1],[1,2],[2,3]]\<close>.
\<close>

theorem end_to_end_scenario:
  assumes dec: "dec scenario_xml_bytes = Inr scenario_xml"
    and xml: "xml scenario_xml = Inr scenario_tree"
    and flt: "flt ''1'' = Inr 1" "flt ''0'' = Inr 0"
    and fuel: "3 \<le> fuel"
  shows "processPacket fuel (exact_lib flt dec xml) receiver0 scenario_packet =
    Ok \<lparr>packet_info = \<lparr>protocol_version = 17104896, stream_id = 0, sequence_number = 0,
                        stream_status = 0, seed = 0, number_of_subpackets = 3\<rparr>,
        packet_xml = [\<lparr>xml_content = scenario_xml, xml_content_size = 78\<rparr>],
        scaling_info = [(PStr ''1'', PStr ''0'')],
        actual_channel_idx = 1,
        channelValue = [[[F 0, F 1], [F 1, F 2], [F 2, F 3]]],
        warnings = []\<rparr>"
proof -
  have f: "fuel = Suc (Suc (Suc (fuel - 3)))" using fuel by simp
  show ?thesis
    unfolding processPacket_def
    apply (subst f)
    apply (simp only: scen_loop1 scen_d1 then_do.simps)
    apply (simp only: scen_loop2 scen_d2 [of dec xml, OF dec xml] then_do.simps)
    apply (simp only: scen_loop3)
    apply (subst scen_d3 [of flt, OF flt])
      apply (simp add: receiver0_def)
     apply (simp add: receiver0_def)
    apply (simp add: loop_at_end scen_len receiver0_def)
    done
qed

theorem end_to_end_scenario_witness:
  "processPacket 3 (exact_lib scenario_float scenario_decode scenario_fromstring) receiver0 scenario_packet =
    Ok \<lparr>packet_info = \<lparr>protocol_version = 17104896, stream_id = 0, sequence_number = 0,
                        stream_status = 0, seed = 0, number_of_subpackets = 3\<rparr>,
        packet_xml = [\<lparr>xml_content = scenario_xml, xml_content_size = 78\<rparr>],
        scaling_info = [(PStr ''1'', PStr ''0'')],
        actual_channel_idx = 1,
        channelValue = [[[F 0, F 1], [F 1, F 2], [F 2, F 3]]],
        warnings = []\<rparr>"
  using end_to_end_scenario [of scenario_decode scenario_fromstring scenario_float 3]
  by (simp add: scenario_decode_def scenario_fromstring_def scenario_float_def)

subsection \<open>Timestamps of a sync-fixed sub-record\<close>

lemma readSamples_sync_cases:
  assumes "readSamples L s packet c d n pos SBT_SYNC_FIXED = Inr (data, w)"
  shows "(\<exists>vs. data = Arr1 vs) \<or>
         (\<exists>k rows dt sz. data = ArrList k rows \<and> DT_DATA_TYPE c = Some (Some dt) \<and> np_dtype dt = Some (k, sz))"
proof (cases "DT_DATA_TYPE c")
  case None
  with assms show ?thesis by (simp add: readSamples_def)
next
  case (Some a)
  show ?thesis
  proof (cases a)
    case None
    with Some assms show ?thesis by (auto simp: readSamples_def)
  next
    case (Some dt)
    note dt = \<open>DT_DATA_TYPE c = Some a\<close> Some
    show ?thesis
    proof (cases "0 < n \<and> d \<noteq> 1")
      case False
      with dt assms show ?thesis
        by (auto simp: readSamples_def SBT_SYNC_FIXED_def SBT_ASYNC_FIXED_def split: if_splits sum.splits)
    next
      case True
      then obtain m where n: "n = Suc m" by (cases n) auto
      from True dt assms obtain rows where
        r: "readArraySync L packet pos d n dt = Inr rows"
        and data: "data = ArrList (case np_dtype dt of Some (k, sz) \<Rightarrow> k | None \<Rightarrow> Float) rows"
        by (auto simp: readSamples_def SBT_SYNC_FIXED_def split: sum.splits)
      from r have "np_dtype dt \<noteq> None"
        by (auto simp: readArraySync_def n np_frombuffer_def split: sum.splits option.splits)
      then obtain k sz where "np_dtype dt = Some (k, sz)" by auto
      with data dt show ?thesis by auto
    qed
  qed
qed

lemma not_complex_code:
  "DT_DATA_TYPE c = Some (Some dt) \<Longrightarrow> np_dtype dt = Some (k, sz) \<Longrightarrow> c \<noteq> 12 \<Longrightarrow> c \<noteq> 13 \<Longrightarrow> k \<noteq> Complex"
  by (auto simp: DT_DATA_TYPE_def np_dtype_def split: if_splits)

lemma readSamples_sync_Arr1:
  assumes "readSamples L s packet c 1 n pos SBT_SYNC_FIXED = Inr (data, w)"
  shows "\<exists>vs. data = Arr1 vs"
  using assms by (auto simp: readSamples_def split: option.splits if_splits sum.splits)

lemma hd_np_c_sync:
  assumes "np_c_sync L ts data = Inr block"
    and "(\<exists>vs. data = Arr1 vs) \<or> (\<exists>k rows. data = ArrList k rows \<and> k \<noteq> Complex)"
  shows "map hd block = map F ts"
  using assms
  by (auto split: if_splits intro!: nth_equalityI)


text \<open>
  Claim C3. When \<^verbatim>\<open>processSyncFixed\<close> decodes a sub-record with sample count
  \<open>N > 0\<close>, start timestamp \<open>T\<close> and frequency \<open>Fq\<close> (with \<open>T + N\<close> in the int64
  range, where \<^verbatim>\<open>np.arange\<close> builds integers), of dimension 1 or of a dtype that is not
  complex, it appends one block, and the time column of the block (the head of each row)
  is \<open>(T + i) / Fq\<close> for \<open>i = 0, ..., N - 1\<close>: the integer \<open>T + i\<close> converted to float64
  and divided by \<open>Fq\<close>.
\<close>

theorem sync_timestamp_law:
  assumes ok: "processSyncFixed L s packet pos = Ok s'"
    and h: "unpack_from DT_SYNC_FIXED_SIZE packet pos = Inr h"
    and n: "0 < field h 8 4"
    and range: "field h 12 8 + field h 8 4 < 2 ^ 63"
    and scalar: "field h 4 4 = 1 \<or> (field h 0 4 \<noteq> 12 \<and> field h 0 4 \<noteq> 13)"
  shows "channelValue s' = channelValue s @ [last (channelValue s')]
       \<and> map hd (last (channelValue s')) =
           map (\<lambda>i. F (f_div L (f_of_int L (int (field h 12 8 + i))) (f_of_f64 L (field h 20 8))))
             [0..<field h 8 4]"
proof -
  let ?ts = "map (\<lambda>i. f_div L (f_of_int L (int (field h 12 8 + i))) (f_of_f64 L (field h 20 8))) [0..<field h 8 4]"
  have ts: "sync_timeStamps L (field h 12 8) (field h 8 4) (f_of_f64 L (field h 20 8)) = Inr ?ts"
    using n range by (simp add: sync_timeStamps_def)
  from ok h obtain data w where
    rs: "readSamples L s packet (field h 0 4) (field h 4 4) (field h 8 4) pos SBT_SYNC_FIXED = Inr (data, w)"
    by (auto simp: processSyncFixed_def split: sum.splits)
  from ok h rs ts obtain block where
    c: "np_c_sync L ?ts data = Inr block"
    and s': "s' = s\<lparr>warnings := warnings s @ w, channelValue := channelValue s @ [block],
                    actual_channel_idx := actual_channel_idx s + 1\<rparr>"
    by (auto simp: processSyncFixed_def split: sum.splits)
  have "(\<exists>vs. data = Arr1 vs) \<or> (\<exists>k rows. data = ArrList k rows \<and> k \<noteq> Complex)"
  proof (cases "field h 4 4 = 1")
    case True
    with rs show ?thesis using readSamples_sync_Arr1 by fastforce
  next
    case False
    with scalar have nc: "field h 0 4 \<noteq> 12" "field h 0 4 \<noteq> 13" by auto
    from readSamples_sync_cases [OF rs] nc show ?thesis
      by (auto dest: not_complex_code)
  qed
  from hd_np_c_sync [OF c this] have "map hd block = map F ?ts" .
  with s' show ?thesis by (simp add: comp_def)
qed

text \<open>For \<open>T = 10\<close>, \<open>N = 2\<close>, \<open>Fq = 2.0\<close> the times are \<open>10/2\<close> and \<open>11/2\<close>.\<close>

lemma sync_example_header: "unpack_from DT_SYNC_FIXED_SIZE sync_example 0 = Inr (take 28 sync_example)"
  by (simp add: unpack_from_def sync_example_def sbt_defs)

lemma sync_example_ok:
  "processSyncFixed no_text_lib (receiver0\<lparr>scaling_info := [(PInt 1, PInt 0)]\<rparr>) sync_example 0 = Ok sync_example_result"
  by (simp add: processSyncFixed_def unpack_from_def sync_example_def sbt_defs field_def readSamples_def
      DT_DATA_TYPE_def readSamplesSync_def receiver0_def np_frombuffer_def np_dtype_def np_elem_def upt2
      no_text_lib_def sync_timeStamps_def ieee_real_def Let_def sync_example_result_def)

theorem sync_timestamp_law_witness:
  "processSyncFixed no_text_lib (receiver0\<lparr>scaling_info := [(PInt 1, PInt 0)]\<rparr>) sync_example 0 = Ok sync_example_result
   \<and> map hd (last (channelValue sync_example_result)) = [F (10 / 2), F (11 / 2)]"
  using sync_timestamp_law [OF sync_example_ok sync_example_header] sync_example_ok
  by (simp add: sync_example_def field_def upt2 no_text_lib_def ieee_real_def Let_def)

text \<open>
  The decoding that Claim C3 is about does return: a sub-record of dimension 1 with a
  dtype name, at least one sample, a scaling entry at the channel index that
  \<^verbatim>\<open>float\<close> accepts, and all its sample bytes in the packet is decoded without an
  exception.
\<close>

lemma np_frombuffer_length:
  "np_frombuffer L packet dt offset count = Inr data \<Longrightarrow> length data = count"
  by (auto simp: np_frombuffer_def split: option.splits if_splits)

lemma compose_length:
  "length data = 3 * n \<Longrightarrow> length (int24_compose data) = n"
  "length data = 3 * n \<Longrightarrow> length (uint24_compose data) = n"
  by (simp_all add: int24_compose_def uint24_compose_def length_strided3)

lemma readSamplesSync_length:
  assumes "readSamplesSync L s packet pos n dt = Inr vs"
  shows "length vs = n"
proof -
  from assms obtain data where
    d: "(if dt = ''int24'' then
           (case np_frombuffer L packet ''uint8'' (pos + DT_SYNC_FIXED_SIZE) (n * 3) of
              Inl e \<Rightarrow> Inl e | Inr data \<Rightarrow> Inr (int24_compose data))
         else if dt = ''uint24'' then
           (case np_frombuffer L packet ''uint8'' (pos + DT_SYNC_FIXED_SIZE) (n * 3) of
              Inl e \<Rightarrow> Inl e | Inr data \<Rightarrow> Inr (uint24_compose data))
         else np_frombuffer L packet dt (pos + DT_SYNC_FIXED_SIZE) n) = Inr data"
    and vs: "length vs = length data"
    by (auto simp: readSamplesSync_def split: if_splits sum.splits)
  from d have "length data = n"
    by (auto split: if_splits sum.splits dest!: np_frombuffer_length simp: compose_length)
  with vs show ?thesis by simp
qed

lemma np_frombuffer_returns:
  "np_dtype dt = Some (k, sz) \<Longrightarrow> offset + count * sz \<le> length packet \<Longrightarrow>
   \<exists>data. np_frombuffer L packet dt offset count = Inr data"
  by (simp add: np_frombuffer_def)

lemma readSamplesSync_returns:
  assumes idx: "actual_channel_idx s < length (scaling_info s)"
    and f: "py_float L (fst (scaling_info s ! actual_channel_idx s)) = Inr f"
    and ofs: "py_float L (snd (scaling_info s ! actual_channel_idx s)) = Inr ofs"
    and buf: "if dt = ''int24'' \<or> dt = ''uint24'' then pos + DT_SYNC_FIXED_SIZE + n * 3 \<le> length packet
              else \<exists>k sz. np_dtype dt = Some (k, sz) \<and> pos + DT_SYNC_FIXED_SIZE + n * sz \<le> length packet"
  shows "\<exists>vs. readSamplesSync L s packet pos n dt = Inr vs"
proof (cases "dt = ''int24'' \<or> dt = ''uint24''")
  case True
  with buf have "pos + DT_SYNC_FIXED_SIZE + n * 3 \<le> length packet" by simp
  then have "np_frombuffer L packet ''uint8'' (pos + DT_SYNC_FIXED_SIZE) (n * 3) =
      Inr (map (\<lambda>i. I (uint (packet ! (pos + DT_SYNC_FIXED_SIZE + i)))) [0..<n * 3])"
    by (intro frombuffer_uint8) simp
  with True idx f ofs show ?thesis
    by (auto simp: readSamplesSync_def)
next
  case False
  with buf obtain k sz where "np_dtype dt = Some (k, sz)" "pos + DT_SYNC_FIXED_SIZE + n * sz \<le> length packet"
    by auto
  from np_frombuffer_returns [OF this, of L] obtain data where
    "np_frombuffer L packet dt (pos + DT_SYNC_FIXED_SIZE) n = Inr data" by blast
  with False idx f ofs show ?thesis
    by (auto simp: readSamplesSync_def)
qed

lemma sync_scalar_returns:
  assumes h: "unpack_from DT_SYNC_FIXED_SIZE packet pos = Inr h"
    and dt: "DT_DATA_TYPE (field h 0 4) = Some (Some dt)"
    and dm: "field h 4 4 = 1"
    and n: "0 < field h 8 4"
    and range: "field h 12 8 + field h 8 4 < 2 ^ 63"
    and idx: "actual_channel_idx s < length (scaling_info s)"
    and f: "py_float L (fst (scaling_info s ! actual_channel_idx s)) = Inr f"
    and ofs: "py_float L (snd (scaling_info s ! actual_channel_idx s)) = Inr ofs"
    and buf: "if dt = ''int24'' \<or> dt = ''uint24'' then pos + DT_SYNC_FIXED_SIZE + field h 8 4 * 3 \<le> length packet
              else \<exists>k sz. np_dtype dt = Some (k, sz) \<and> pos + DT_SYNC_FIXED_SIZE + field h 8 4 * sz \<le> length packet"
  shows "\<exists>s'. processSyncFixed L s packet pos = Ok s'"
proof -
  from readSamplesSync_returns [OF idx f ofs buf] obtain vs where
    vs: "readSamplesSync L s packet pos (field h 8 4) dt = Inr vs" by blast
  from readSamplesSync_length [OF vs] have l: "length vs = field h 8 4" .
  from vs dt dm n have rs: "readSamples L s packet (field h 0 4) (field h 4 4) (field h 8 4) pos SBT_SYNC_FIXED = Inr (Arr1 vs, [])"
    by (simp add: readSamples_def)
  show ?thesis
    using n range l by (simp add: processSyncFixed_def h rs sync_timeStamps_def)
qed

subsection \<open>Blocks and scaling entries are only appended\<close>

lemma grows_refl [simp]: "grows s s"
  by (simp add: grows_def)

lemma grows_trans: "grows a b \<Longrightarrow> grows b c \<Longrightarrow> grows a c"
  by (auto simp: grows_def intro: prefix_order.trans)

lemma outcome_grows_then_do:
  assumes "outcome_grows s out" and "\<And>s1. outcome_grows s1 (k s1)"
  shows "outcome_grows s (then_do out k)"
proof (cases out)
  case (Ok s1)
  with assms(1) have g: "grows s s1" by (simp add: outcome_grows_def)
  from assms(2) [of s1] g show ?thesis
    unfolding Ok by (cases "k s1") (auto simp: outcome_grows_def intro: grows_trans)
next
  case (Raised e s1)
  with assms(1) show ?thesis by (simp add: outcome_grows_def)
next
  case OutOfFuel
  then show ?thesis by (simp add: outcome_grows_def)
qed

lemma grows_processPacketInfo: "outcome_grows s (processPacketInfo s packet pos)"
  by (simp add: processPacketInfo_def outcome_grows_def grows_def split: sum.splits)

lemma grows_parseScalingXML_loop: "outcome_grows s (parseScalingXML_loop cs s)"
proof (induction cs arbitrary: s)
  case Nil
  show ?case by (simp add: outcome_grows_def)
next
  case (Cons c cs)
  show ?case
  proof (cases "children c")
    case Nil
    then show ?thesis by (simp add: outcome_grows_def)
  next
    case (Cons c0 rest)
    let ?s1 = "s\<lparr>scaling_info := scaling_info s @ [scaling_entry c0]\<rparr>"
    have "grows s ?s1" by (simp add: grows_def)
    moreover from Cons.IH [of ?s1] have "outcome_grows ?s1 (parseScalingXML_loop cs ?s1)" .
    ultimately show ?thesis
      using Cons by (cases "parseScalingXML_loop cs ?s1") (auto simp: outcome_grows_def intro: grows_trans)
  qed
qed

lemma grows_parseScalingXML: "outcome_grows s (parseScalingXML L s content)"
  using grows_parseScalingXML_loop
  by (auto simp: parseScalingXML_def outcome_grows_def split: sum.splits)

lemma grows_processXmlConfig: "outcome_grows s (processXmlConfig L s packet pos sz)"
proof (cases "bytes_decode L (py_slice packet pos (int pos + sz))")
  case (Inl e)
  then show ?thesis by (simp add: processXmlConfig_def outcome_grows_def)
next
  case (Inr content)
  let ?s1 = "s\<lparr>packet_xml := packet_xml s @ [\<lparr>xml_content = content, xml_content_size = sz\<rparr>]\<rparr>"
  have "grows s ?s1" by (simp add: grows_def)
  with grows_parseScalingXML [of ?s1 L content] show ?thesis
    unfolding processXmlConfig_def Inr
    by (cases "parseScalingXML L ?s1 content") (auto simp: outcome_grows_def intro: grows_trans)
qed

lemma appends_processSyncFixed: "appends_one_block s (processSyncFixed L s packet pos)"
  by (auto simp: processSyncFixed_def appends_one_block_def split: sum.splits prod.splits)

lemma appends_processAsyncFixed: "appends_one_block s (processAsyncFixed L s packet pos)"
  by (auto simp: processAsyncFixed_def appends_one_block_def split: sum.splits prod.splits)

lemma grows_processSyncFixed: "outcome_grows s (processSyncFixed L s packet pos)"
  by (auto simp: processSyncFixed_def outcome_grows_def grows_def split: sum.splits prod.splits)

lemma grows_processAsyncFixed: "outcome_grows s (processAsyncFixed L s packet pos)"
  by (auto simp: processAsyncFixed_def outcome_grows_def grows_def split: sum.splits prod.splits)

lemma outcome_grows_Ok [simp]: "outcome_grows s (Ok s)"
  by (simp add: outcome_grows_def)

lemma grows_dispatch: "outcome_grows s (dispatch L s packet pos sz ty)"
  unfolding dispatch_def
  by (intro outcome_grows_then_do)
     (simp_all add: grows_processPacketInfo grows_processXmlConfig grows_processSyncFixed grows_processAsyncFixed)

lemma grows_processPacket_loop: "outcome_grows s (processPacket_loop fuel L s packet pos hf)"
proof (induction fuel arbitrary: s pos)
  case 0
  show ?case by (simp add: outcome_grows_def)
next
  case (Suc fuel)
  show ?case
  proof (cases "pos < length packet \<and> \<not> hf")
    case False
    then show ?thesis by auto
  next
    case True
    show ?thesis
    proof (cases "unpack_from DT_SUBPACKET_HEADER_SIZE packet pos")
      case (Inl e)
      with True show ?thesis by (simp add: outcome_grows_def)
    next
      case (Inr h)
      have ih: "outcome_grows s1 (processPacket_loop fuel L s1 packet p False)" for s1 p
        using Suc.IH [of s1 p] True by simp
      from Inr True show ?thesis
        by (simp del: then_do.simps) (intro outcome_grows_then_do grows_dispatch ih)
    qed
  qed
qed

lemma grows_processPacket: "outcome_grows s (processPacket fuel L s packet)"
proof -
  have "grows s (s\<lparr>actual_channel_idx := 0\<rparr>)" by (simp add: grows_def)
  with grows_processPacket_loop [of "s\<lparr>actual_channel_idx := 0\<rparr>" fuel L packet 0 False]
  show ?thesis
    unfolding processPacket_def
    by (cases "processPacket_loop fuel L (s\<lparr>actual_channel_idx := 0\<rparr>) packet 0 False")
       (auto simp: outcome_grows_def intro: grows_trans)
qed

lemma outcome_grows_blocks: "outcome_grows s out \<Longrightarrow> keeps_blocks s out"
  by (cases out) (simp_all add: outcome_grows_def keeps_blocks_def grows_def)

lemma outcome_grows_scaling: "outcome_grows s out \<Longrightarrow> keeps_scaling s out"
  by (cases out) (simp_all add: outcome_grows_def keeps_scaling_def grows_def)


text \<open>
  Claim C9. \<^verbatim>\<open>processSyncFixed\<close> and \<^verbatim>\<open>processAsyncFixed\<close> append exactly one
  block when they return and leave \<open>channelValue\<close> as it was when they raise; and
  whatever the loop of \<^verbatim>\<open>processPacket\<close> does from any receiver and offset, returning
  or raising partway, the blocks that were in \<open>channelValue\<close> are still its first blocks,
  unchanged.
\<close>

theorem decoding_is_append_only:
  "appends_one_block s (processSyncFixed L s packet pos)
 \<and> appends_one_block s (processAsyncFixed L s packet pos)
 \<and> keeps_blocks s (processPacket_loop fuel L s packet pos hit_footer)
 \<and> keeps_blocks s (processPacket fuel L s packet)"
  by (simp add: appends_processSyncFixed appends_processAsyncFixed
      outcome_grows_blocks grows_processPacket_loop grows_processPacket)

text \<open>
  In \<open>two_sync_packet\<close> the second sub-record raises; the block of the first is kept.
\<close>

lemma two_sync_second:
  "processPacket_loop 1 no_text_lib sync_example_result two_sync_packet 38 False =
     Raised ValueError (sync_example_result\<lparr>warnings := [''Data type not supported yet by python'']\<rparr>)"
  by (simp add: two_sync_packet_def sync_example_def unpack_from_def sbt_defs field_def dispatch_def
      processSyncFixed_def readSamples_def DT_DATA_TYPE_def sync_timeStamps_def sync_example_result_def)

theorem decoding_is_append_only_witness:
  "processPacket_loop 1 no_text_lib sync_example_result two_sync_packet 38 False =
     Raised ValueError (sync_example_result\<lparr>warnings := [''Data type not supported yet by python'']\<rparr>)
   \<and> prefix [[[F 5, F 7], [F (11 / 2), F 9]]]
        (channelValue (sync_example_result\<lparr>warnings := [''Data type not supported yet by python'']\<rparr>))"
proof -
  let ?r = "sync_example_result\<lparr>warnings := [''Data type not supported yet by python'']\<rparr>"
  have "keeps_blocks sync_example_result (processPacket_loop 1 no_text_lib sync_example_result two_sync_packet 38 False)"
    using decoding_is_append_only [of sync_example_result no_text_lib two_sync_packet 38 1 False]
    by (elim conjE)
  then have "keeps_blocks sync_example_result (Raised ValueError ?r)"
    by (simp only: two_sync_second)
  then have "prefix [[[F 5, F 7], [F (11 / 2), F 9]]] (channelValue ?r)"
    by (simp add: keeps_blocks_def sync_example_result_def)
  with two_sync_second show ?thesis by (intro conjI)
qed

lemma parseScalingXML_loop_all:
  "\<forall>c\<in>set cs. children c \<noteq> [] \<Longrightarrow>
   parseScalingXML_loop cs s =
     Ok (s\<lparr>scaling_info := scaling_info s @ map (\<lambda>c. scaling_entry (hd (children c))) cs\<rparr>)"
proof (induction cs arbitrary: s)
  case Nil
  show ?case by simp
next
  case (Cons c cs)
  then obtain c0 rest where c: "children c = c0 # rest" by (cases "children c") auto
  from Cons have "\<forall>c\<in>set cs. children c \<noteq> []" by simp
  from Cons.IH [OF this] c show ?case by simp
qed

text \<open>
  Claim C10. \<^verbatim>\<open>parseScalingXML\<close> on a document whose root is \<^verbatim>\<open>ChannelInfo\<close>, each
  child of which has a first sub-element, appends one entry per child, in order, built
  from the \<^verbatim>\<open>factor\<close> and \<^verbatim>\<open>offset\<close> attributes of that sub-element with the
  defaults 1 and 0; on another root it changes nothing. Every method that changes the
  receiver leaves the old scaling table as the first entries of the new one, whether it
  returns or raises; \<^verbatim>\<open>processPacket\<close> resets only the channel index.
\<close>

theorem scaling_table_only_grows:
  "(et_fromstring L content = Inr rt \<and> tag rt = ''ChannelInfo'' \<and> (\<forall>c\<in>set (children rt). children c \<noteq> []) \<longrightarrow>
      parseScalingXML L s content =
        Ok (s\<lparr>scaling_info := scaling_info s @ map (\<lambda>c. scaling_entry (hd (children c))) (children rt)\<rparr>))
 \<and> (map_of (attrib c0) ''factor'' = None \<longrightarrow> fst (scaling_entry c0) = PInt 1)
 \<and> (map_of (attrib c0) ''offset'' = None \<longrightarrow> snd (scaling_entry c0) = PInt 0)
 \<and> (et_fromstring L content = Inr rt \<and> tag rt \<noteq> ''ChannelInfo'' \<longrightarrow> parseScalingXML L s content = Ok s)
 \<and> keeps_scaling s (parseScalingXML L s content)
 \<and> keeps_scaling s (processXmlConfig L s packet pos sz)
 \<and> keeps_scaling s (processPacketInfo s packet pos)
 \<and> keeps_scaling s (processSyncFixed L s packet pos)
 \<and> keeps_scaling s (processAsyncFixed L s packet pos)
 \<and> keeps_scaling s (processPacket fuel L s packet)
 \<and> processPacket fuel L s packet = processPacket_loop fuel L (s\<lparr>actual_channel_idx := 0\<rparr>) packet 0 False"
proof (intro conjI)
  show "et_fromstring L content = Inr rt \<and> tag rt = ''ChannelInfo'' \<and> (\<forall>c\<in>set (children rt). children c \<noteq> []) \<longrightarrow>
      parseScalingXML L s content =
        Ok (s\<lparr>scaling_info := scaling_info s @ map (\<lambda>c. scaling_entry (hd (children c))) (children rt)\<rparr>)"
    by (simp add: parseScalingXML_def parseScalingXML_loop_all)
  show "map_of (attrib c0) ''factor'' = None \<longrightarrow> fst (scaling_entry c0) = PInt 1"
    by (simp add: scaling_entry_def)
  show "map_of (attrib c0) ''offset'' = None \<longrightarrow> snd (scaling_entry c0) = PInt 0"
    by (simp add: scaling_entry_def)
  show "et_fromstring L content = Inr rt \<and> tag rt \<noteq> ''ChannelInfo'' \<longrightarrow> parseScalingXML L s content = Ok s"
    by (simp add: parseScalingXML_def)
  show "keeps_scaling s (parseScalingXML L s content)"
    by (rule outcome_grows_scaling [OF grows_parseScalingXML])
  show "keeps_scaling s (processXmlConfig L s packet pos sz)"
    by (rule outcome_grows_scaling [OF grows_processXmlConfig])
  show "keeps_scaling s (processPacketInfo s packet pos)"
    by (rule outcome_grows_scaling [OF grows_processPacketInfo])
  show "keeps_scaling s (processSyncFixed L s packet pos)"
    by (rule outcome_grows_scaling [OF grows_processSyncFixed])
  show "keeps_scaling s (processAsyncFixed L s packet pos)"
    by (rule outcome_grows_scaling [OF grows_processAsyncFixed])
  show "keeps_scaling s (processPacket fuel L s packet)"
    by (rule outcome_grows_scaling [OF grows_processPacket])
  show "processPacket fuel L s packet = processPacket_loop fuel L (s\<lparr>actual_channel_idx := 0\<rparr>) packet 0 False"
    by (simp add: processPacket_def)
qed

theorem scaling_table_only_grows_witness:
  "parseScalingXML (exact_lib scenario_float scenario_decode scenario_fromstring)
     (receiver0\<lparr>scaling_info := [(PInt 2, PInt 1)]\<rparr>) scenario_xml =
     Ok (receiver0\<lparr>scaling_info := [(PInt 2, PInt 1), (PStr ''1'', PStr ''0'')]\<rparr>)
 \<and> scaling_entry (Element ''Scaling'' [] []) = (PInt 1, PInt 0)
 \<and> parseScalingXML (exact_lib scenario_float scenario_decode (\<lambda>s. Inr (Element ''Other'' [] (children scenario_tree))))
     (receiver0\<lparr>scaling_info := [(PInt 2, PInt 1)]\<rparr>) scenario_xml =
     Ok (receiver0\<lparr>scaling_info := [(PInt 2, PInt 1)]\<rparr>)"
  using scaling_table_only_grows [of "exact_lib scenario_float scenario_decode scenario_fromstring"
      scenario_xml scenario_tree "receiver0\<lparr>scaling_info := [(PInt 2, PInt 1)]\<rparr>" "Element ''Scaling'' [] []"]
    scaling_table_only_grows [of "exact_lib scenario_float scenario_decode (\<lambda>s. Inr (Element ''Other'' [] (children scenario_tree)))"
      scenario_xml "Element ''Other'' [] (children scenario_tree)" "receiver0\<lparr>scaling_info := [(PInt 2, PInt 1)]\<rparr>"]
  by (simp add: scenario_fromstring_def scenario_tree_def prod_eq_iff)
     (simp add: scaling_entry_def receiver0_def)

subsection \<open>Unsupported dtypes and empty sub-records\<close>

text \<open>
  Claim C4 says that a sync-fixed sub-record of a complex dtype yields an empty block.
  It does not: \<^verbatim>\<open>DT_DATA_TYPE\<close> maps the codes 12 and 13 to the NumPy dtypes, and
  \<^verbatim>\<open>readSamplesSync\<close> decodes them, \<^verbatim>\<open>astype('float64')\<close> keeping the real part.
  The sample \<open>3 + 4j\<close> gives the row \<open>[0, 3]\<close>.
\<close>

theorem complex_samples_are_decoded:
  "processSyncFixed no_text_lib (receiver0\<lparr>scaling_info := [(PInt 1, PInt 0)]\<rparr>) complex_example 0 =
     Ok (receiver0\<lparr>scaling_info := [(PInt 1, PInt 0)], channelValue := [[[F 0, F 3]]], actual_channel_idx := 1\<rparr>)"
  by (simp add: processSyncFixed_def unpack_from_def complex_example_def sbt_defs field_def readSamples_def
      DT_DATA_TYPE_def readSamplesSync_def receiver0_def np_frombuffer_def np_dtype_def np_elem_def
      no_text_lib_def sync_timeStamps_def ieee_real_def Let_def)

lemma readSamples_zero_count:
  assumes "c < 16"
  shows "readSamples L s packet c d 0 pos ty =
     Inr (Arr1 [], [if c < 14 then ''No or invalid data received.'' else ''Data type not supported yet by python''])"
proof (cases "c < 14")
  case True
  then obtain dt where "DT_DATA_TYPE c = Some (Some dt)" using DT_DATA_TYPE_cases(1) by blast
  with True show ?thesis by (simp add: readSamples_def)
next
  case False
  with assms have "DT_DATA_TYPE c = Some None" by (intro DT_DATA_TYPE_cases(2)) auto
  with False show ?thesis by (simp add: readSamples_def)
qed

text \<open>
  Claim C4, amended. A sync-fixed sub-record whose sample count is zero and whose dtype
  code is in the table (0 to 15, so also 14, 15 and the complex codes) makes one
  iteration of the loop append an empty block and log a warning; nothing is raised, and
  the loop goes on at the next sub-record with the channel index advanced.
\<close>

theorem zero_count_sync_sub_record:
  assumes hdr: "unpack_from DT_SUBPACKET_HEADER_SIZE packet p = Inr hdr"
    and ty: "field hdr 4 4 = SBT_SYNC_FIXED"
    and h: "unpack_from DT_SYNC_FIXED_SIZE packet (p + DT_SUBPACKET_HEADER_SIZE) = Inr h"
    and code: "field h 0 4 < 16"
    and zero: "field h 8 4 = 0"
  shows "processPacket_loop (Suc fuel) L s packet p False =
         processPacket_loop fuel L
           (s\<lparr>warnings := warnings s @
                  [if field h 0 4 < 14 then ''No or invalid data received.''
                   else ''Data type not supported yet by python''],
              channelValue := channelValue s @ [[]],
              actual_channel_idx := actual_channel_idx s + 1\<rparr>)
           packet (p + field hdr 0 4) False"
proof -
  from hdr have p: "p < length packet"
    by (auto simp: unpack_from_def DT_SUBPACKET_HEADER_SIZE_def split: if_splits)
  have sync: "processSyncFixed L s packet (p + DT_SUBPACKET_HEADER_SIZE) =
      Ok (s\<lparr>warnings := warnings s @
                  [if field h 0 4 < 14 then ''No or invalid data received.''
                   else ''Data type not supported yet by python''],
              channelValue := channelValue s @ [[]],
              actual_channel_idx := actual_channel_idx s + 1\<rparr>)"
    by (simp add: processSyncFixed_def h zero readSamples_zero_count [OF code, of _ _ _ _ _ SBT_SYNC_FIXED] sync_timeStamps_def)
  have "dispatch L s packet p (field hdr 0 4) (field hdr 4 4) =
      processSyncFixed L s packet (p + DT_SUBPACKET_HEADER_SIZE)"
    unfolding ty by (simp add: dispatch_def then_do_Ok SBT_PACKET_INFO_def SBT_XML_CONFIG_def SBT_SYNC_FIXED_def SBT_ASYNC_FIXED_def)
  with p hdr sync show ?thesis by simp
qed

theorem zero_count_sync_sub_record_witness:
  "processPacket_loop 1 no_text_lib receiver0 zero_count_packet 0 False =
     Ok (receiver0\<lparr>warnings := [''Data type not supported yet by python''],
                   channelValue := [[]], actual_channel_idx := 1\<rparr>)"
proof -
  have hdr: "unpack_from DT_SUBPACKET_HEADER_SIZE zero_count_packet 0 = Inr [36, 0, 0, 0, 3, 0, 0, 0]"
    by (simp add: unpack_from_def zero_count_packet_def sbt_defs)
  have h: "unpack_from DT_SYNC_FIXED_SIZE zero_count_packet (0 + DT_SUBPACKET_HEADER_SIZE) = Inr (drop 8 zero_count_packet)"
    by (simp add: unpack_from_def zero_count_packet_def sbt_defs)
  have "processPacket_loop (Suc 0) no_text_lib receiver0 zero_count_packet 0 False =
     processPacket_loop 0 no_text_lib (receiver0\<lparr>warnings := [''Data type not supported yet by python''],
                   channelValue := [[]], actual_channel_idx := 1\<rparr>) zero_count_packet 36 False"
    using zero_count_sync_sub_record [OF hdr _ h, of 0 no_text_lib receiver0]
    by (simp add: field_def zero_count_packet_def SBT_SYNC_FIXED_def receiver0_def)
  also have "\<dots> = Ok (receiver0\<lparr>warnings := [''Data type not supported yet by python''],
                   channelValue := [[]], actual_channel_idx := 1\<rparr>)"
    by (rule loop_at_end) (simp add: zero_count_packet_def)
  finally show ?thesis by simp
qed


text \<open>
  With at least one sample, the codes 14 and 15 take two different ways. In
  \<^verbatim>\<open>processSyncFixed\<close> the empty array of \<^verbatim>\<open>readSamples\<close> meets the \<open>N\<close>
  timestamps in \<^verbatim>\<open>np.c_\<close>, which raises \<^verbatim>\<open>ValueError\<close>; in
  \<^verbatim>\<open>processAsyncFixed\<close> the test of \<^verbatim>\<open>data.size\<close> skips the columns and the empty
  block is appended.
\<close>

lemma sync_unsupported_raises:
  assumes h: "unpack_from DT_SYNC_FIXED_SIZE packet pos = Inr h"
    and code: "14 \<le> field h 0 4" "field h 0 4 < 16"
    and n: "0 < field h 8 4"
    and range: "field h 12 8 + field h 8 4 < 2 ^ 63"
  shows "processSyncFixed L s packet pos =
     Raised ValueError (s\<lparr>warnings := warnings s @ [''Data type not supported yet by python'']\<rparr>)"
  using n range
  by (simp add: processSyncFixed_def h readSamples_def DT_DATA_TYPE_cases(2) [OF code] sync_timeStamps_def)

lemma async_unsupported_appends_empty:
  assumes h: "unpack_from DT_ASYNC_FIXED_SIZE packet pos = Inr h"
    and code: "14 \<le> field h 0 4" "field h 0 4 < 16"
  shows "processAsyncFixed L s packet pos =
     Ok (s\<lparr>warnings := warnings s @ [''Data type not supported yet by python''],
           channelValue := channelValue s @ [[]],
           actual_channel_idx := actual_channel_idx s + 1\<rparr>)"
  by (simp add: processAsyncFixed_def h readSamples_def DT_DATA_TYPE_cases(2) [OF code])

subsection \<open>The declared size of a sub-record\<close>

text \<open>
  Claim C5 says that a declared size that passes the end of the payload is reported as a
  framing error. \<^verbatim>\<open>processPacket\<close> has no check of the size: on \<open>overrun_packet\<close> it
  returns without an error.
\<close>

theorem overrun_is_not_reported:
  "processPacket 1 no_text_lib receiver0 overrun_packet = Ok receiver0"
  by (simp add: processPacket_def overrun_packet_def unpack_from_def sbt_defs field_def dispatch_def receiver0_def)

text \<open>
  Claim C5, amended. When the header of a sub-record fits in the payload and its declared
  size reaches or passes the end of the payload, the iteration does what the dispatch of
  that sub-record does and the loop ends there, with no error on account of the size;
  when fewer than 8 bytes are left for a header, the loop raises \<^verbatim>\<open>struct.error\<close>.
\<close>

theorem declared_size_is_not_checked:
  "(unpack_from DT_SUBPACKET_HEADER_SIZE packet p = Inr hdr \<and> length packet \<le> p + field hdr 0 4 \<longrightarrow>
      processPacket_loop (Suc fuel) L s packet p False = dispatch L s packet p (field hdr 0 4) (field hdr 4 4))
 \<and> (p < length packet \<and> length packet < p + DT_SUBPACKET_HEADER_SIZE \<longrightarrow>
      processPacket_loop (Suc fuel) L s packet p False = Raised StructError s)"
proof (intro conjI impI)
  assume a: "unpack_from DT_SUBPACKET_HEADER_SIZE packet p = Inr hdr \<and> length packet \<le> p + field hdr 0 4"
  then have p: "p < length packet"
    by (auto simp: unpack_from_def DT_SUBPACKET_HEADER_SIZE_def split: if_splits)
  have "(\<lambda>s'. processPacket_loop fuel L s' packet (p + field hdr 0 4) False) = Ok"
    using a by (simp add: loop_at_end)
  with a p show "processPacket_loop (Suc fuel) L s packet p False = dispatch L s packet p (field hdr 0 4) (field hdr 4 4)"
    by (simp add: then_do_Ok)
next
  assume "p < length packet \<and> length packet < p + DT_SUBPACKET_HEADER_SIZE"
  then show "processPacket_loop (Suc fuel) L s packet p False = Raised StructError s"
    by (simp add: unpack_from_def)
qed

theorem declared_size_is_not_checked_witness:
  "processPacket_loop (Suc 0) no_text_lib receiver0 [100, 0, 0, 0, 7, 0, 0, 0] 0 False = Ok receiver0
 \<and> processPacket_loop (Suc 0) no_text_lib receiver0 [100, 0, 0] 0 False = Raised StructError receiver0"
  using declared_size_is_not_checked [of "[100, 0, 0, 0, 7, 0, 0, 0]" 0 "[100, 0, 0, 0, 7, 0, 0, 0]" 0 no_text_lib receiver0]
    declared_size_is_not_checked [of "[100, 0, 0]" 0 "[]" 0 no_text_lib receiver0]
  by (simp add: unpack_from_def sbt_defs field_def dispatch_def)

text \<open>
  A declared size of zero leaves the offset where it is. With a type that no decoder
  handles the receiver does not change either, and the loop reads the same header for
  as long as it is given fuel.
\<close>

lemma zero_size_never_ends:
  assumes hdr: "unpack_from DT_SUBPACKET_HEADER_SIZE packet p = Inr hdr"
    and sz: "field hdr 0 4 = 0"
    and ty: "field hdr 4 4 \<notin> {SBT_PACKET_INFO, SBT_XML_CONFIG, SBT_SYNC_FIXED, SBT_ASYNC_FIXED}"
  shows "processPacket_loop fuel L s packet p False = OutOfFuel"
proof -
  from hdr have p: "p < length packet"
    by (auto simp: unpack_from_def DT_SUBPACKET_HEADER_SIZE_def split: if_splits)
  from ty have d: "dispatch L s packet p 0 (field hdr 4 4) = Ok s"
    by (auto simp: dispatch_def)
  show ?thesis
    by (induction fuel) (use p hdr sz d in simp_all)
qed

lemma zero_size_packet_never_ends:
  "processPacket fuel L s zero_size_packet = OutOfFuel"
  unfolding processPacket_def
  by (rule zero_size_never_ends [where hdr = zero_size_packet])
     (simp_all add: zero_size_packet_def unpack_from_def field_def sbt_defs)

subsection \<open>The footer\<close>

lemma footer_first_len: "length footer_first_packet = 46"
  by (simp add: footer_first_packet_def sync_example_def)

lemma footer_step:
  "processPacket_loop (Suc n) L s footer_first_packet 0 False = processPacket_loop n L s footer_first_packet 8 False"
  by (simp add: footer_first_len unpack_from_def sbt_defs field_def dispatch_def)
     (simp add: footer_first_packet_def sync_example_def)

lemma footer_sync_header:
  "unpack_from 28 footer_first_packet 16 =
     Inr [1, 0, 0, 0,  1, 0, 0, 0,  2, 0, 0, 0,  10, 0, 0, 0, 0, 0, 0, 0,  0, 0, 0, 0, 0, 0, 0, 0x40]"
  by (simp add: unpack_from_def footer_first_packet_def sync_example_def)

lemma footer_samples:
  "np_frombuffer L footer_first_packet ''uint8'' 44 2 = Inr [I 7, I 9]"
  by (simp add: np_frombuffer_def np_dtype_def np_elem_def upt2 footer_first_packet_def sync_example_def)

lemma footer_sync:
  "processSyncFixed no_text_lib (receiver0\<lparr>scaling_info := [(PInt 1, PInt 0)]\<rparr>) footer_first_packet 16 =
     Ok sync_example_result"
  by (simp add: processSyncFixed_def DT_SYNC_FIXED_SIZE_def footer_sync_header field_def readSamples_def
      DT_DATA_TYPE_def readSamplesSync_def footer_samples receiver0_def SBT_SYNC_FIXED_def
      no_text_lib_def sync_timeStamps_def upt2 ieee_real_def Let_def sync_example_result_def)

lemma footer_sync_step:
  "processPacket_loop (Suc n) no_text_lib (receiver0\<lparr>scaling_info := [(PInt 1, PInt 0)]\<rparr>) footer_first_packet 8 False =
     Ok sync_example_result"
proof -
  have h: "unpack_from DT_SUBPACKET_HEADER_SIZE footer_first_packet 8 = Inr [38, 0, 0, 0, 3, 0, 0, 0]"
    by (simp add: unpack_from_def footer_first_packet_def sync_example_def sbt_defs)
  have d: "dispatch no_text_lib (receiver0\<lparr>scaling_info := [(PInt 1, PInt 0)]\<rparr>) footer_first_packet 8 38 3 =
      Ok sync_example_result"
    using footer_sync by (simp add: dispatch_def sbt_defs)
  show ?thesis
    by (simp add: footer_first_len h field_def d loop_at_end)
qed

text \<open>
  Claim C6 on \<open>footer_first_packet\<close>: the loop does not stop at the footer sub-record;
  the sync-fixed sub-record behind it is decoded and its block appended.
\<close>

theorem footer_does_not_end_the_loop:
  "processPacket 2 no_text_lib (receiver0\<lparr>scaling_info := [(PInt 1, PInt 0)]\<rparr>) footer_first_packet = Ok sync_example_result"
proof -
  have "processPacket_loop (Suc (Suc 0)) no_text_lib
          (receiver0\<lparr>scaling_info := [(PInt 1, PInt 0)], actual_channel_idx := 0\<rparr>) footer_first_packet 0 False =
        Ok sync_example_result"
    using footer_sync_step [of 0] by (simp only: footer_step) (simp add: receiver0_def)
  then show ?thesis
    by (simp add: processPacket_def numeral_2_eq_2 del: processPacket_loop.simps)
qed


subsection \<open>Async-fixed arrays\<close>

text \<open>
  Claim C7 on \<open>async_array_example\<close>: \<^verbatim>\<open>readArrayAsync\<close> returns the row
  \<open>[1000, 7, 9]\<close>, the timestamp in raw ticks, as a Python list; \<^verbatim>\<open>processAsyncFixed\<close>
  then asks the list for \<^verbatim>\<open>size\<close> and raises \<^verbatim>\<open>AttributeError\<close> before it appends
  anything.
\<close>

theorem async_array_raises:
  "readArrayAsync no_text_lib async_array_example 0 2 1 ''uint8'' = Inr [[I 1000, I 7, I 9]]
 \<and> processAsyncFixed no_text_lib receiver0 async_array_example 0 = Raised AttributeError receiver0"
  by (simp add: processAsyncFixed_def readSamples_def readArrayAsync_def async_array_example_def
      unpack_from_def sbt_defs field_def DT_DATA_TYPE_def np_frombuffer_def np_dtype_def np_elem_def
      itemsize_def upt2)

text \<open>
  It is so for every async-fixed sub-record of a dtype name (codes 0 to 13), a dimension
  other than 1 and at least one sample: \<^verbatim>\<open>processAsyncFixed\<close> never returns.
\<close>

lemma async_array_never_returns:
  assumes "unpack_from DT_ASYNC_FIXED_SIZE packet pos = Inr h"
    and "field h 0 4 < 14" and "field h 4 4 \<noteq> 1" and "0 < field h 8 4"
  shows "processAsyncFixed L s packet pos \<noteq> Ok s'"
proof -
  from assms(2) obtain dt where "DT_DATA_TYPE (field h 0 4) = Some (Some dt)"
    using DT_DATA_TYPE_cases(1) by blast
  with assms show ?thesis
    by (auto simp: processAsyncFixed_def readSamples_def SBT_SYNC_FIXED_def SBT_ASYNC_FIXED_def
        split: sum.splits)
qed

subsection \<open>recvFixedSize\<close>

lemma closed_socket_never_returns:
  "0 < n \<Longrightarrow> recvFixedSize_loop fuel [] data n = RecvOutOfFuel"
  by (induction fuel arbitrary: data) simp_all

text \<open>
  Claim C8 on a connection that delivers 2 bytes and is then closed, for a request of 5
  bytes: \<^verbatim>\<open>recv_into\<close> returns 0 from then on, \<open>data_to_read\<close> stays at 3, and the
  loop runs for as long as it is given fuel.
\<close>

theorem recvFixedSize_loops_on_closed_connection:
  "recvFixedSize fuel [Chunk [1, 2]] 5 = RecvOutOfFuel"
proof (cases fuel)
  case 0
  then show ?thesis by (simp add: recvFixedSize_def)
next
  case (Suc k)
  have "recvFixedSize_loop k [] [1, 2] 3 = RecvOutOfFuel"
    by (rule closed_socket_never_returns) simp
  with Suc show ?thesis by (simp add: recvFixedSize_def)
qed

text \<open>What \<^verbatim>\<open>recvFixedSize\<close> returns, when it returns, has the requested length.\<close>

lemma recv_into_length: "recv_into s k = (Inr bs, s') \<Longrightarrow> length bs \<le> k"
  by (cases "(s, k)" rule: recv_into.cases) auto

lemma recvFixedSize_loop_exact:
  "recvFixedSize_loop fuel s data k = Received d s' \<Longrightarrow> length d = length data + k"
proof (induction fuel arbitrary: s data k)
  case 0
  then show ?case by (simp split: if_splits)
next
  case (Suc fuel)
  show ?case
  proof (cases "k = 0")
    case True
    with Suc.prems show ?thesis by simp
  next
    case False
    with Suc.prems obtain bs s1 where r: "recv_into s k = (Inr bs, s1)"
      and l: "recvFixedSize_loop fuel s1 (data @ bs) (k - length bs) = Received d s'"
      by (auto split: prod.splits sum.splits)
    from recv_into_length [OF r] Suc.IH [OF l] show ?thesis by simp
  qed
qed

end
